theory Spec2Isabelle
  imports Complex_Main "HOL-Library.Char_ord" "HOL-Library.List_Lexorder" "HOL-Library.Sublist"
begin

text \<open>
  A shallow embedding of the two TypeScript modules of the repository: the
  project intelligence (\<open>scripts/core/project-intelligence.ts\<close>: directory
  scanner, duplicate detector, naming convention inferencer, validation of names)
  and the TDD protocol (the template emitter that writes a test and an
  implementation skeleton for a feature). The definitions come first, each named
  as the method it models; the lemmas and the theorems on the claims C1 to C10
  of the specification follow.
\<close>

section \<open>JavaScript strings and arrays\<close>

text \<open>
  A JavaScript string is modelled as a \<^typ>\<open>string\<close>, one \<^typ>\<open>char\<close> per code unit.
  The model covers ASCII text: the case mappings below change the letters
  \<open>a\<close>..\<open>z\<close> and \<open>A\<close>..\<open>Z\<close> only, and white space is the ASCII white space. Every
  regular expression of the source is a character-class expression over ASCII
  ranges, so its meaning on a \<^typ>\<open>string\<close> is the meaning it has on the code units.
  The value \<open>undefined\<close> of a \<open>string | undefined\<close> expression is \<^term>\<open>None\<close>.
\<close>

definition isUpper :: "char \<Rightarrow> bool" where
  \<comment> \<open>the character class \<open>[A-Z]\<close>\<close>
  "isUpper c = (CHR ''A'' \<le> c \<and> c \<le> CHR ''Z'')"

definition isLower :: "char \<Rightarrow> bool" where
  \<comment> \<open>the character class \<open>[a-z]\<close>\<close>
  "isLower c = (CHR ''a'' \<le> c \<and> c \<le> CHR ''z'')"

definition isDigit :: "char \<Rightarrow> bool" where
  \<comment> \<open>the character class \<open>[0-9]\<close>\<close>
  "isDigit c = (CHR ''0'' \<le> c \<and> c \<le> CHR ''9'')"

definition toUpperChar :: "char \<Rightarrow> char" where
  "toUpperChar c = (if isLower c then char_of (of_char c - (32::nat)) else c)"

definition toLowerChar :: "char \<Rightarrow> char" where
  "toLowerChar c = (if isUpper c then char_of (of_char c + (32::nat)) else c)"

definition toUpperCase :: "string \<Rightarrow> string" where
  "toUpperCase s = map toUpperChar s"

definition toLowerCase :: "string \<Rightarrow> string" where
  "toLowerCase s = map toLowerChar s"

fun str_includes :: "string \<Rightarrow> string \<Rightarrow> bool" where
  \<comment> \<open>\<open>s.includes(sub)\<close>: \<open>sub\<close> occurs in \<open>s\<close> as a contiguous substring\<close>
  "str_includes [] sub = (sub = [])"
| "str_includes (c # cs) sub = (prefix sub (c # cs) \<or> str_includes cs sub)"

definition isSpace :: "char \<Rightarrow> bool" where
  \<comment> \<open>tab, line feed, vertical tab, form feed, carriage return, space\<close>
  "isSpace c = (c \<in> set [CHR 0x09, CHR 0x0A, CHR 0x0B, CHR 0x0C, CHR 0x0D, CHR '' ''])"

definition trim :: "string \<Rightarrow> string" where
  "trim s = rev (dropWhile isSpace (rev (dropWhile isSpace s)))"

fun split :: "char \<Rightarrow> string \<Rightarrow> string list" where
  \<comment> \<open>\<open>s.split(sep)\<close> for a one-character separator; the empty string gives \<open>['']\<close>\<close>
  "split sep [] = [[]]"
| "split sep (c # cs) =
     (if c = sep then [] # split sep cs
      else (case split sep cs of [] \<Rightarrow> [[c]] | w # ws \<Rightarrow> (c # w) # ws))"

definition Boolean :: "string \<Rightarrow> bool" where
  \<comment> \<open>truthiness of a string: every string but the empty one\<close>
  "Boolean s = (s \<noteq> [])"

definition js_or :: "string option \<Rightarrow> string option \<Rightarrow> string option" where
  \<comment> \<open>\<open>a || b\<close> on \<open>string | undefined\<close>: \<open>undefined\<close> and \<open>''\<close> are falsy\<close>
  "js_or a b = (case a of None \<Rightarrow> b | Some s \<Rightarrow> if Boolean s then Some s else b)"

definition js_or_default :: "string option \<Rightarrow> string \<Rightarrow> string" where
  \<comment> \<open>\<open>a || 'literal'\<close>\<close>
  "js_or_default a d = (case a of None \<Rightarrow> d | Some s \<Rightarrow> if Boolean s then s else d)"

definition at0 :: "'a list \<Rightarrow> 'a option" where
  \<comment> \<open>\<open>xs[0]\<close>, which is \<open>undefined\<close> on the empty array\<close>
  "at0 xs = (case xs of [] \<Rightarrow> None | x # _ \<Rightarrow> Some x)"

fun join :: "string \<Rightarrow> string list \<Rightarrow> string" where
  \<comment> \<open>\<open>xs.join(sep)\<close>\<close>
  "join sep [] = []"
| "join sep [x] = x"
| "join sep (x # y # ys) = x @ sep @ join sep (y # ys)"

section \<open>project-intelligence.ts: the data model\<close>

record DirectoryStructure =
  canonicalLocations :: "string \<rightharpoonup> string"
  forbiddenLocations :: "string list"
  duplicateStructures :: "string list"

record NamingPatterns =
  components :: string
  utilities :: string
  tests :: string
  apiRoutes :: string

record TestingFramework =
  name :: string
  testPattern :: string
  testLocation :: string

text \<open>
  The fields \<open>conventions\<close> and \<open>conflicts\<close> of the interface \<open>ProjectMap\<close> are read by
  \<open>generateReport\<close> only and are left out.
\<close>

record ProjectMap =
  "structure" :: DirectoryStructure
  patterns :: NamingPatterns
  existingFeatures :: "string list"
  testFramework :: TestingFramework

record ValidationResult =
  isValid :: bool
  issues :: "string list"
  suggestions :: "string list"

record DuplicationCheck =
  isDuplicate :: bool
  alternatives :: "string list"
  recommendation :: string

section \<open>The directory scanner\<close>

text \<open>
  \<open>execSync\<close> of \<open>child_process\<close> runs a shell command and returns what it wrote to
  standard output; it throws when the command exits with a non-zero status. The
  state of the file system enters the model through this function only: it is a
  parameter, a map from the command line to its outcome.
\<close>

datatype exception = ExecError

type_synonym execSync = "string \<Rightarrow> exception + string"

definition findDirectories :: "execSync \<Rightarrow> string \<Rightarrow> exception + string list" where
  \<open>findDirectories exec nm =
     (case exec (''find . -name "'' @ nm @ ''" -type d | grep -v node_modules'') of
        Inr result \<Rightarrow> Inr (filter Boolean (split CHR ''\<newline>'' (trim result)))
      | Inl e \<Rightarrow> Inr [])\<close>

definition findFiles :: "execSync \<Rightarrow> string \<Rightarrow> string option \<Rightarrow> exception + string list" where
  \<open>findFiles exec pattern directory =
     (let searchPath =
        (case directory of
           None \<Rightarrow> ''''
         | Some d \<Rightarrow> if Boolean d then ''-path "*/'' @ d @ ''/*"'' else '''')
      in case exec (''find . '' @ searchPath @ '' -name "'' @ pattern @ ''" | grep -v node_modules'') of
           Inr result \<Rightarrow> Inr (filter Boolean (split CHR ''\<newline>'' (trim result)))
         | Inl e \<Rightarrow> Inr [])\<close>

section \<open>The duplicate detector\<close>

definition selectCanonicalLocation :: "string list \<Rightarrow> string \<Rightarrow> string option" where
  "selectCanonicalLocation locations preferred =
     js_or (List.find (\<lambda>loc. str_includes loc preferred) locations) (at0 locations)"

text \<open>
  \<open>mapStructure\<close> runs the same block for the three roles \<open>components\<close>, \<open>docs\<close>
  and \<open>lib\<close>, each with its own preferred substring; \<open>scanRole\<close> is that block. The
  three blocks sit in one \<open>try\<close>: an exception leaves the remaining blocks out and
  the structure built so far is returned.
\<close>

definition scanRole ::
  "execSync \<Rightarrow> string \<Rightarrow> string \<Rightarrow> DirectoryStructure \<Rightarrow> exception + DirectoryStructure" where
  "scanRole exec role preferred ds =
     (case findDirectories exec role of
        Inl e \<Rightarrow> Inl e
      | Inr dirs \<Rightarrow>
          if length dirs > 1 then
            let dup = duplicateStructures ds @ dirs;
                canonical = (canonicalLocations ds)(role := selectCanonicalLocation dirs preferred);
                forbidden = forbiddenLocations ds @ filter (\<lambda>dir. Some dir \<noteq> canonical role) dirs
            in Inr \<lparr>canonicalLocations = canonical, forbiddenLocations = forbidden,
                    duplicateStructures = dup\<rparr>
          else Inr ds)"

definition mapStructure :: "execSync \<Rightarrow> DirectoryStructure" where
  "mapStructure exec =
     (let ds0 = \<lparr>canonicalLocations = Map.empty, forbiddenLocations = [],
                 duplicateStructures = []\<rparr>
      in case scanRole exec ''components'' ''src/components'' ds0 of
           Inl e \<Rightarrow> ds0
         | Inr ds1 \<Rightarrow>
             (case scanRole exec ''docs'' ''docs'' ds1 of
                Inl e \<Rightarrow> ds1
              | Inr ds2 \<Rightarrow>
                  (case scanRole exec ''lib'' ''src/lib'' ds2 of
                     Inl e \<Rightarrow> ds2
                   | Inr ds3 \<Rightarrow> ds3)))"

section \<open>The naming convention inferencer\<close>

fun testUpperLower :: "string \<Rightarrow> bool" where
  \<comment> \<open>\<open>/[A-Z][a-z]/.test(s)\<close>: somewhere an upper-case letter is followed by a lower-case one\<close>
  "testUpperLower (a # b # cs) = ((isUpper a \<and> isLower b) \<or> testUpperLower (b # cs))"
| "testUpperLower _ = False"

text \<open>
  The source compares with \<open>files.length / 2\<close>, a division of JavaScript numbers:
  it is exact on a length, so it is the division of \<^typ>\<open>real\<close> here.
\<close>

definition detectNamingPattern :: "string list \<Rightarrow> string" where
  "detectNamingPattern files =
     (let pascalCaseCount = length (filter testUpperLower files)
      in if real pascalCaseCount > real (length files) / 2 then ''PascalCase'' else ''camelCase'')"

definition detectTestPattern :: "string list \<Rightarrow> string" where
  "detectTestPattern files =
     (if list_ex (\<lambda>f. str_includes f ''.test.'') files then ''.test.*''
      else if list_ex (\<lambda>f. str_includes f ''.spec.'') files then ''.spec.*''
      else ''.test.*'')"

definition defaultPatterns :: NamingPatterns where
  \<comment> \<open>the object literal \<open>detectPatterns\<close> starts from\<close>
  "defaultPatterns =
     \<lparr>components = ''PascalCase'', utilities = ''camelCase'', tests = ''.test.tsx'',
      apiRoutes = ''kebab-case''\<rparr>"

definition detectPatterns :: "execSync \<Rightarrow> NamingPatterns" where
  "detectPatterns exec =
     (let patterns0 = defaultPatterns
      in case findFiles exec ''*.tsx'' (Some ''components'') of
           Inl e \<Rightarrow> patterns0
         | Inr componentFiles \<Rightarrow>
             (let patterns1 =
                (if length componentFiles > 0
                 then patterns0\<lparr>components := detectNamingPattern componentFiles\<rparr>
                 else patterns0)
              in case findFiles exec ''*.test.*'' None of
                   Inl e \<Rightarrow> patterns1
                 | Inr testFiles \<Rightarrow>
                     (if length testFiles > 0
                      then patterns1\<lparr>tests := detectTestPattern testFiles\<rparr>
                      else patterns1)))"

section \<open>The catalogue of features and the test framework\<close>

definition pop :: "string list \<Rightarrow> string option" where
  \<comment> \<open>\<open>xs.pop()\<close>: the last element, \<open>undefined\<close> on the empty array\<close>
  "pop xs = (if xs = [] then None else Some (last xs))"

definition stripExtension :: "string \<Rightarrow> string" where
  \<comment> \<open>\<open>s.replace(/\.(ts|tsx|js|jsx)$/, '')\<close>: the match, if any, is a suffix of \<open>s\<close>\<close>
  "stripExtension s =
     (if suffix ''.ts'' s then take (length s - 3) s
      else if suffix ''.tsx'' s then take (length s - 4) s
      else if suffix ''.js'' s then take (length s - 3) s
      else if suffix ''.jsx'' s then take (length s - 4) s
      else s)"

definition extractFeatureName :: "string \<Rightarrow> string" where
  "extractFeatureName filePath =
     (let fileName = js_or_default (pop (split CHR ''/'' filePath)) []
      in stripExtension fileName)"

definition catalogFeatures :: "execSync \<Rightarrow> string list" where
  "catalogFeatures exec =
     filter Boolean
       (case findFiles exec ''*.tsx'' (Some ''components'') of
          Inl e \<Rightarrow> []
        | Inr componentFiles \<Rightarrow>
            (let features1 = map extractFeatureName componentFiles
             in case findFiles exec ''*.ts'' (Some ''lib'') of
                  Inl e \<Rightarrow> features1
                | Inr utilFiles \<Rightarrow>
                    (let features2 = features1 @ map extractFeatureName utilFiles
                     in case findFiles exec ''*.ts'' (Some ''api'') of
                          Inl e \<Rightarrow> features2
                        | Inr apiFiles \<Rightarrow> features2 @ map extractFeatureName apiFiles)))"

text \<open>
  \<open>detectTestFramework\<close> asks \<open>existsSync\<close> for \<open>jest.config.js\<close> under the project
  root; the answer is the parameter \<open>jestConfig\<close>.
\<close>

definition detectTestFramework :: "execSync \<Rightarrow> bool \<Rightarrow> TestingFramework" where
  "detectTestFramework exec jestConfig =
     (let framework0 = \<lparr>name = ''unknown'', testPattern = ''*.test.*'', testLocation = ''__tests__''\<rparr>;
          framework1 = (if jestConfig then framework0\<lparr>name := ''jest''\<rparr> else framework0)
      in case findDirectories exec ''test'' of
           Inl e \<Rightarrow> framework1
         | Inr testDirs \<Rightarrow>
             (if length testDirs > 0
              then framework1\<lparr>testLocation := testDirs ! 0\<rparr>
              else framework1))"

definition analyzeProject :: "execSync \<Rightarrow> bool \<Rightarrow> ProjectMap" where
  "analyzeProject exec jestConfig =
     \<lparr>structure = mapStructure exec,
      patterns = detectPatterns exec,
      existingFeatures = catalogFeatures exec,
      testFramework = detectTestFramework exec jestConfig\<rparr>"

section \<open>Queries on the project map\<close>

definition findSimilarFeatures :: "ProjectMap \<Rightarrow> string \<Rightarrow> string list" where
  "findSimilarFeatures projectMap feature =
     filter (\<lambda>existing.
        str_includes (toLowerCase existing) (toLowerCase feature) \<or>
        str_includes (toLowerCase feature) (toLowerCase existing))
       (existingFeatures projectMap)"

definition preventDuplication :: "ProjectMap \<Rightarrow> string \<Rightarrow> DuplicationCheck" where
  "preventDuplication projectMap proposedFeature =
     (let existing = findSimilarFeatures projectMap proposedFeature
      in \<lparr>isDuplicate = length existing > 0,
          alternatives = existing,
          recommendation =
            (if length existing > 0 then ''Consider extending existing: '' @ existing ! 0
             else ''Safe to create new feature'')\<rparr>)"

definition suggestLocation :: "ProjectMap \<Rightarrow> string \<Rightarrow> string \<Rightarrow> string" where
  "suggestLocation projectMap fileType featureName =
     (let canonical = canonicalLocations (structure projectMap)
      in if fileType = ''component'' then js_or_default (canonical ''components'') ''src/components''
         else if fileType = ''utility'' then js_or_default (canonical ''lib'') ''src/lib''
         else if fileType = ''test''
           then js_or_default (Some (testLocation (testFramework projectMap))) ''__tests__''
         else if fileType = ''documentation'' then js_or_default (canonical ''docs'') ''docs''
         else ''src'')"

definition matchesPattern :: "string \<Rightarrow> string \<Rightarrow> bool" where
  \<comment> \<open>\<open>^[A-Z][a-zA-Z0-9]*$\<close>, \<open>^[a-z][a-zA-Z0-9]*$\<close>, \<open>^[a-z][a-z0-9-]*$\<close>; any other pattern matches\<close>
  "matchesPattern nm pattern =
     (if pattern = ''PascalCase'' then
        (case nm of [] \<Rightarrow> False
         | c # cs \<Rightarrow> isUpper c \<and> list_all (\<lambda>d. isLower d \<or> isUpper d \<or> isDigit d) cs)
      else if pattern = ''camelCase'' then
        (case nm of [] \<Rightarrow> False
         | c # cs \<Rightarrow> isLower c \<and> list_all (\<lambda>d. isLower d \<or> isUpper d \<or> isDigit d) cs)
      else if pattern = ''kebab-case'' then
        (case nm of [] \<Rightarrow> False
         | c # cs \<Rightarrow> isLower c \<and> list_all (\<lambda>d. isLower d \<or> isDigit d \<or> d = CHR ''-'') cs)
      else True)"

definition replaceUpper :: "string \<Rightarrow> string" where
  \<comment> \<open>\<open>s.replace(/[A-Z]/g, '-$&')\<close>: a hyphen before every upper-case letter\<close>
  "replaceUpper s = concat (map (\<lambda>c. if isUpper c then [CHR ''-'', c] else [c]) s)"

definition replaceLeadingHyphen :: "string \<Rightarrow> string" where
  \<comment> \<open>\<open>s.replace(/^-/, '')\<close>\<close>
  "replaceLeadingHyphen s = (case s of [] \<Rightarrow> [] | c # cs \<Rightarrow> if c = CHR ''-'' then cs else c # cs)"

definition suggestCorrectNaming :: "string \<Rightarrow> string \<Rightarrow> string" where
  \<comment> \<open>\<open>charAt(0)\<close> is the empty string on the empty string, \<open>slice(1)\<close> drops one character\<close>
  "suggestCorrectNaming nm pattern =
     (if pattern = ''PascalCase'' then toUpperCase (take 1 nm) @ drop 1 nm
      else if pattern = ''camelCase'' then toLowerCase (take 1 nm) @ drop 1 nm
      else if pattern = ''kebab-case'' then replaceLeadingHyphen (replaceUpper (toLowerCase nm))
      else nm)"

text \<open>
  \<open>patterns[fileType]\<close> reads a property of the object literal built by
  \<open>detectPatterns\<close>. A name that is none of its four keys gives \<open>undefined\<close>, or an
  inherited member of \<open>Object.prototype\<close>, which is no string: \<open>matchesPattern\<close>
  then takes its \<open>default\<close> branch and no issue is recorded, as for \<open>undefined\<close>.
\<close>

definition patternOf :: "NamingPatterns \<Rightarrow> string \<Rightarrow> string option" where
  "patternOf p fileType =
     (if fileType = ''components'' then Some (components p)
      else if fileType = ''utilities'' then Some (utilities p)
      else if fileType = ''tests'' then Some (tests p)
      else if fileType = ''apiRoutes'' then Some (apiRoutes p)
      else None)"

definition validateNaming :: "ProjectMap \<Rightarrow> string \<Rightarrow> string \<Rightarrow> ValidationResult" where
  "validateNaming projectMap proposedName fileType =
     (let (issues1, suggestions1) =
            (case patternOf (patterns projectMap) fileType of
               None \<Rightarrow> ([], [])
             | Some pattern \<Rightarrow>
                 if Boolean pattern \<and> \<not> matchesPattern proposedName pattern
                 then ([''Name doesn't match '' @ pattern @ '' pattern''],
                       [''Consider: '' @ suggestCorrectNaming proposedName pattern])
                 else ([], []));
          existing = findSimilarFeatures projectMap proposedName;
          (issues2, suggestions2) =
            (if length existing > 0
             then (issues1 @ [''Similar feature already exists''],
                   suggestions1 @ [''Existing: '' @ join '', '' existing])
             else (issues1, suggestions1))
      in \<lparr>isValid = (length issues2 = 0), issues = issues2, suggestions = suggestions2\<rparr>)"

section \<open>The TDD protocol: data model, file system and paths\<close>

record TDDConfig =
  testFramework :: string
  testLocation :: string
  componentLocation :: string
  utilityLocation :: string

text \<open>
  The field \<open>type\<close> is declared as one of four string literals; the type is erased
  at run time and every \<open>switch\<close> over it has a \<open>default\<close> branch, so it is a
  \<^typ>\<open>string\<close> here. The optional fields are \<^term>\<open>None\<close> when absent.
\<close>

record FeatureSpec =
  name :: string
  type :: string
  description :: string
  inputs :: "string list option"
  outputs :: "string list option"
  errorCases :: "string list option"

text \<open>The object \<open>TDDProtocol\<close>: the project map of its \<open>ProjectIntelligence\<close>, and its configuration.\<close>

record TDDProtocol =
  intelligence :: ProjectMap
  config :: TDDConfig

text \<open>
  The file system as \<open>fs\<close> sees it: a path names a file with its content, a
  directory, or nothing. \<open>writeFileSync\<close> (default flag \<open>w\<close>) creates the file or
  replaces its content, and throws \<open>EISDIR\<close> on a directory. \<open>mkdirSync\<close> with
  \<open>recursive: true\<close> creates the directory; the ancestors it creates on the way are
  not recorded. The model does not record which directory holds a path, so the
  errors for a missing parent (\<open>ENOENT\<close>, \<open>ENOTDIR\<close>) are outside it, as are the
  failures of the operating system (permissions, a full disk).
\<close>

datatype entry = File string | Directory

type_synonym FileSystem = "string \<rightharpoonup> entry"

datatype fs_exception = EISDIR

definition existsSync :: "FileSystem \<Rightarrow> string \<Rightarrow> bool" where
  "existsSync fs path = (fs path \<noteq> None)"

definition mkdirSync :: "FileSystem \<Rightarrow> string \<Rightarrow> FileSystem" where
  "mkdirSync fs path = fs(path \<mapsto> Directory)"

definition writeFileSync :: "FileSystem \<Rightarrow> string \<Rightarrow> string \<Rightarrow> fs_exception + FileSystem" where
  "writeFileSync fs path content =
     (case fs path of
        Some Directory \<Rightarrow> Inl EISDIR
      | _ \<Rightarrow> Inr (fs(path \<mapsto> File content)))"

text \<open>
  \<open>join\<close> and \<open>dirname\<close> of Node's \<open>path\<close> module are parameters of the model: the
  field \<open>path_join\<close> takes the list of the arguments of \<open>join\<close>.
\<close>

record PathModule =
  path_join :: "string list \<Rightarrow> string"
  dirname :: "string \<Rightarrow> string"

section \<open>The TDD protocol: rendering\<close>

definition optJoin :: "string \<Rightarrow> string list option \<Rightarrow> string" where
  \<comment> \<open>\<open>xs?.join(sep) || ''\<close>: the empty string when \<open>xs\<close> is absent\<close>
  "optJoin sep xs = (case xs of None \<Rightarrow> [] | Some ys \<Rightarrow> js_or_default (Some (join sep ys)) [])"

definition mapIndexed :: "('a \<Rightarrow> nat \<Rightarrow> 'b) \<Rightarrow> 'a list \<Rightarrow> 'b list" where
  \<comment> \<open>\<open>xs.map((x, index) => ...)\<close>\<close>
  "mapIndexed f xs = map (\<lambda>(x, index). f x index) (zip xs [0..<length xs])"

fun showNat :: "nat \<Rightarrow> string" where
  \<comment> \<open>a number in a template literal: its decimal digits\<close>
  "showNat n =
     (if n < 10 then [''0123456789'' ! n]
      else showNat (n div 10) @ [''0123456789'' ! (n mod 10)])"

declare showNat.simps [simp del]

definition generateComponentTest :: "FeatureSpec \<Rightarrow> string \<Rightarrow> string" where
  \<open>generateComponentTest spec importPath =
     ''import React from 'react';\<newline>'' @
     ''import { render, screen, fireEvent, waitFor } from '@testing-library/react';\<newline>'' @
     ''import '' @ (name spec) @ '' from '' @ [CHR 0x27] @ importPath @ ''';\<newline>'' @
     ''\<newline>'' @
     ''describe('' @ [CHR 0x27] @ (name spec) @ ''', () => {\<newline>'' @
     ''  // Basic rendering test\<newline>'' @
     ''  it('should render without crashing', () => {\<newline>'' @
     ''    render(<'' @ (name spec) @ '' />);\<newline>'' @
     ''    expect(screen.getByRole('main')).toBeInTheDocument();\<newline>'' @
     ''  });\<newline>'' @
     ''\<newline>'' @
     ''  // Functionality tests\<newline>'' @
     ''  it('should handle user interactions', async () => {\<newline>'' @
     ''    render(<'' @ (name spec) @ '' />);\<newline>'' @
     ''    \<newline>'' @
     ''    // Add specific interaction tests based on spec\<newline>'' @
     ''    '' @ (optJoin [] (map_option (map (\<lambda>input.
           ''\<newline>'' @
           ''    // Test '' @ input @ '' input\<newline>'' @
           ''    const '' @ input @ ''Element = screen.getByLabelText('' @ [CHR 0x27] @ input @ ''');\<newline>'' @
           ''    fireEvent.change('' @ input @ ''Element, { target: { value: 'test value' } });\<newline>'' @
           ''    expect('' @ input @ ''Element).toHaveValue('test value');'')) (inputs spec))) @ ''\<newline>'' @
     ''  });\<newline>'' @
     ''\<newline>'' @
     ''  // Error handling tests\<newline>'' @
     ''  it('should handle errors gracefully', async () => {\<newline>'' @
     ''    render(<'' @ (name spec) @ '' />);\<newline>'' @
     ''    \<newline>'' @
     ''    '' @ (optJoin [] (map_option (map (\<lambda>errorCase.
           ''\<newline>'' @
           ''    // Test '' @ errorCase @ '' error case\<newline>'' @
           ''    // Implementation should not crash and show appropriate error message'')) (errorCases spec))) @ ''\<newline>'' @
     ''  });\<newline>'' @
     ''\<newline>'' @
     ''  // Self-healing tests\<newline>'' @
     ''  it('should recover from failures automatically', async () => {\<newline>'' @
     ''    render(<'' @ (name spec) @ '' />);\<newline>'' @
     ''    \<newline>'' @
     ''    // Test automatic recovery mechanisms\<newline>'' @
     ''    // Component should handle network failures, invalid data, etc.\<newline>'' @
     ''  });\<newline>'' @
     ''});''\<close>

definition generateUtilityTest :: "FeatureSpec \<Rightarrow> string \<Rightarrow> string" where
  \<open>generateUtilityTest spec importPath =
     ''import { '' @ (name spec) @ '' } from '' @ [CHR 0x27] @ importPath @ ''';\<newline>'' @
     ''\<newline>'' @
     ''describe('' @ [CHR 0x27] @ (name spec) @ ''', () => {\<newline>'' @
     ''  // Basic functionality test\<newline>'' @
     ''  it('should perform expected operation', () => {\<newline>'' @
     ''    '' @ (optJoin [] (map_option (mapIndexed (\<lambda>input index.
           ''\<newline>'' @
           ''    const input'' @ (showNat (index + 1)) @ '' = 'test'' @ (showNat (index + 1)) @ ''';'')) (inputs spec))) @ ''\<newline>'' @
     ''    \<newline>'' @
     ''    const result = '' @ (name spec) @ ''('' @ (optJoin '', '' (map_option (mapIndexed (\<lambda>uu index.
           ''input'' @ (showNat (index + 1)))) (inputs spec))) @ '');\<newline>'' @
     ''    \<newline>'' @
     ''    '' @ (optJoin [] (map_option (map (\<lambda>output.
           ''\<newline>'' @
           ''    expect(result).toHaveProperty('' @ [CHR 0x27] @ output @ ''');'')) (outputs spec))) @ ''\<newline>'' @
     ''  });\<newline>'' @
     ''\<newline>'' @
     ''  // Input validation tests\<newline>'' @
     ''  it('should validate inputs properly', () => {\<newline>'' @
     ''    // Test invalid inputs\<newline>'' @
     ''    expect(() => '' @ (name spec) @ ''(null)).not.toThrow();\<newline>'' @
     ''    expect(() => '' @ (name spec) @ ''(undefined)).not.toThrow();\<newline>'' @
     ''    expect(() => '' @ (name spec) @ ''('' @ [CHR 0x27, CHR 0x27] @ '')).not.toThrow();\<newline>'' @
     ''  });\<newline>'' @
     ''\<newline>'' @
     ''  // Error handling tests\<newline>'' @
     ''  it('should handle errors gracefully', () => {\<newline>'' @
     ''    '' @ (optJoin [] (map_option (map (\<lambda>errorCase.
           ''\<newline>'' @
           ''    // Test '' @ errorCase @ '' error case\<newline>'' @
           ''    expect(() => '' @ (name spec) @ ''(/* invalid input */)).not.toThrow();'')) (errorCases spec))) @ ''\<newline>'' @
     ''  });\<newline>'' @
     ''\<newline>'' @
     ''  // Self-healing tests\<newline>'' @
     ''  it('should provide fallback values', () => {\<newline>'' @
     ''    const result = '' @ (name spec) @ ''(/* problematic input */);\<newline>'' @
     ''    expect(result).toBeDefined();\<newline>'' @
     ''    // Should return safe default value\<newline>'' @
     ''  });\<newline>'' @
     ''});''\<close>

definition generateApiTest :: "FeatureSpec \<Rightarrow> string \<Rightarrow> string" where
  \<open>generateApiTest spec importPath =
     ''import { createMocks } from 'node-mocks-http';\<newline>'' @
     ''import handler from '' @ [CHR 0x27] @ importPath @ ''';\<newline>'' @
     ''\<newline>'' @
     ''describe('/api/'' @ (toLowerCase (name spec)) @ ''', () => {\<newline>'' @
     ''  it('should handle GET requests', async () => {\<newline>'' @
     ''    const { req, res } = createMocks({\<newline>'' @
     ''      method: 'GET',\<newline>'' @
     ''    });\<newline>'' @
     ''\<newline>'' @
     ''    await handler(req, res);\<newline>'' @
     ''\<newline>'' @
     ''    expect(res._getStatusCode()).toBe(200);\<newline>'' @
     ''  });\<newline>'' @
     ''\<newline>'' @
     ''  it('should validate request data', async () => {\<newline>'' @
     ''    const { req, res } = createMocks({\<newline>'' @
     ''      method: 'POST',\<newline>'' @
     ''      body: {}, // Invalid data\<newline>'' @
     ''    });\<newline>'' @
     ''\<newline>'' @
     ''    await handler(req, res);\<newline>'' @
     ''\<newline>'' @
     ''    expect(res._getStatusCode()).toBe(400);\<newline>'' @
     ''  });\<newline>'' @
     ''\<newline>'' @
     ''  it('should handle errors gracefully', async () => {\<newline>'' @
     ''    // Test error scenarios\<newline>'' @
     ''    const { req, res } = createMocks({\<newline>'' @
     ''      method: 'POST',\<newline>'' @
     ''      body: { /* malformed data */ },\<newline>'' @
     ''    });\<newline>'' @
     ''\<newline>'' @
     ''    await handler(req, res);\<newline>'' @
     ''\<newline>'' @
     ''    // Should not crash, should return appropriate error\<newline>'' @
     ''    expect(res._getStatusCode()).toBeGreaterThanOrEqual(400);\<newline>'' @
     ''  });\<newline>'' @
     ''});''\<close>

definition generateHookTest :: "FeatureSpec \<Rightarrow> string \<Rightarrow> string" where
  \<open>generateHookTest spec importPath =
     ''import { renderHook, act } from '@testing-library/react';\<newline>'' @
     ''import { '' @ (name spec) @ '' } from '' @ [CHR 0x27] @ importPath @ ''';\<newline>'' @
     ''\<newline>'' @
     ''describe('' @ [CHR 0x27] @ (name spec) @ ''', () => {\<newline>'' @
     ''  it('should initialize with default values', () => {\<newline>'' @
     ''    const { result } = renderHook(() => '' @ (name spec) @ ''());\<newline>'' @
     ''    \<newline>'' @
     ''    expect(result.current).toBeDefined();\<newline>'' @
     ''  });\<newline>'' @
     ''\<newline>'' @
     ''  it('should handle state updates', () => {\<newline>'' @
     ''    const { result } = renderHook(() => '' @ (name spec) @ ''());\<newline>'' @
     ''    \<newline>'' @
     ''    act(() => {\<newline>'' @
     ''      // Test state updates\<newline>'' @
     ''    });\<newline>'' @
     ''    \<newline>'' @
     ''    // Verify state changes\<newline>'' @
     ''  });\<newline>'' @
     ''\<newline>'' @
     ''  it('should handle errors gracefully', () => {\<newline>'' @
     ''    const { result } = renderHook(() => '' @ (name spec) @ ''());\<newline>'' @
     ''    \<newline>'' @
     ''    act(() => {\<newline>'' @
     ''      // Trigger error condition\<newline>'' @
     ''    });\<newline>'' @
     ''    \<newline>'' @
     ''    // Should not crash, should handle error\<newline>'' @
     ''    expect(result.current).toBeDefined();\<newline>'' @
     ''  });\<newline>'' @
     ''});''\<close>

definition generateGenericTest :: "FeatureSpec \<Rightarrow> string \<Rightarrow> string" where
  \<open>generateGenericTest spec importPath =
     ''import { '' @ (name spec) @ '' } from '' @ [CHR 0x27] @ importPath @ ''';\<newline>'' @
     ''\<newline>'' @
     ''describe('' @ [CHR 0x27] @ (name spec) @ ''', () => {\<newline>'' @
     ''  it('should work as expected', () => {\<newline>'' @
     ''    // Basic functionality test\<newline>'' @
     ''    expect('' @ (name spec) @ '').toBeDefined();\<newline>'' @
     ''  });\<newline>'' @
     ''\<newline>'' @
     ''  it('should handle edge cases', () => {\<newline>'' @
     ''    // Error handling test\<newline>'' @
     ''    // Implementation should be robust\<newline>'' @
     ''  });\<newline>'' @
     ''});''\<close>

definition generateMinimalComponent :: "FeatureSpec \<Rightarrow> string" where
  \<open>generateMinimalComponent spec =
     ''import React from 'react';\<newline>'' @
     ''\<newline>'' @
     ''interface '' @ (name spec) @ ''Props {\<newline>'' @
     ''  // Add props based on spec\<newline>'' @
     ''}\<newline>'' @
     ''\<newline>'' @
     ''const '' @ (name spec) @ '': React.FC<'' @ (name spec) @ ''Props> = () => {\<newline>'' @
     ''  return (\<newline>'' @
     ''    <div role="main">\<newline>'' @
     ''      <h1>'' @ (name spec) @ ''</h1>\<newline>'' @
     ''      <p>'' @ (description spec) @ ''</p>\<newline>'' @
     ''    </div>\<newline>'' @
     ''  );\<newline>'' @
     ''};\<newline>'' @
     ''\<newline>'' @
     ''export default '' @ (name spec) @ '';''\<close>

definition generateSelfHealingComponent :: "FeatureSpec \<Rightarrow> string" where
  \<open>generateSelfHealingComponent spec =
     ''import React, { useState, useEffect, useCallback } from 'react';\<newline>'' @
     ''\<newline>'' @
     ''interface '' @ (name spec) @ ''Props {\<newline>'' @
     ''  // Add props based on spec\<newline>'' @
     ''}\<newline>'' @
     ''\<newline>'' @
     ''interface '' @ (name spec) @ ''State {\<newline>'' @
     ''  isLoading: boolean;\<newline>'' @
     ''  error: string | null;\<newline>'' @
     ''  data: any;\<newline>'' @
     ''}\<newline>'' @
     ''\<newline>'' @
     ''const '' @ (name spec) @ '': React.FC<'' @ (name spec) @ ''Props> = () => {\<newline>'' @
     ''  const [state, setState] = useState<'' @ (name spec) @ ''State>({\<newline>'' @
     ''    isLoading: false,\<newline>'' @
     ''    error: null,\<newline>'' @
     ''    data: null\<newline>'' @
     ''  });\<newline>'' @
     ''\<newline>'' @
     ''  // Self-healing error recovery\<newline>'' @
     ''  const handleError = useCallback((error: Error) => {\<newline>'' @
     ''    console.error('' @ [CHR 0x27] @ (name spec) @ '' error:', error);\<newline>'' @
     ''    setState(prev => ({ ...prev, error: error.message, isLoading: false }));\<newline>'' @
     ''    \<newline>'' @
     ''    // Auto-recovery attempt\<newline>'' @
     ''    setTimeout(() => {\<newline>'' @
     ''      setState(prev => ({ ...prev, error: null }));\<newline>'' @
     ''    }, 5000);\<newline>'' @
     ''  }, []);\<newline>'' @
     ''\<newline>'' @
     ''  // Validate state continuously\<newline>'' @
     ''  useEffect(() => {\<newline>'' @
     ''    if (!state.data && !state.isLoading && !state.error) {\<newline>'' @
     ''      // Auto-initialize if needed\<newline>'' @
     ''    }\<newline>'' @
     ''  }, [state]);\<newline>'' @
     ''\<newline>'' @
     ''  if (state.error) {\<newline>'' @
     ''    return (\<newline>'' @
     ''      <div role="alert" className="error-boundary">\<newline>'' @
     ''        <h2>Something went wrong</h2>\<newline>'' @
     ''        <p>{state.error}</p>\<newline>'' @
     ''        <button onClick={() => setState(prev => ({ ...prev, error: null }))}>\<newline>'' @
     ''          Try Again\<newline>'' @
     ''        </button>\<newline>'' @
     ''      </div>\<newline>'' @
     ''    );\<newline>'' @
     ''  }\<newline>'' @
     ''\<newline>'' @
     ''  return (\<newline>'' @
     ''    <div role="main">\<newline>'' @
     ''      <h1>'' @ (name spec) @ ''</h1>\<newline>'' @
     ''      <p>'' @ (description spec) @ ''</p>\<newline>'' @
     ''      {state.isLoading && <div>Loading...</div>}\<newline>'' @
     ''    </div>\<newline>'' @
     ''  );\<newline>'' @
     ''};\<newline>'' @
     ''\<newline>'' @
     ''export default '' @ (name spec) @ '';''\<close>

definition generateMinimalUtility :: "FeatureSpec \<Rightarrow> string" where
  \<open>generateMinimalUtility spec =
     ''/**\<newline>'' @
     '' * '' @ (description spec) @ ''\<newline>'' @
     '' */\<newline>'' @
     ''export function '' @ (name spec) @ ''('' @ (optJoin '', '' (map_option (map (\<lambda>input.
           input @ '': any'')) (inputs spec))) @ ''): any {\<newline>'' @
     ''  // Minimal implementation to pass tests\<newline>'' @
     ''  return {};\<newline>'' @
     ''}''\<close>

definition generateSelfHealingUtility :: "FeatureSpec \<Rightarrow> string" where
  \<open>generateSelfHealingUtility spec =
     ''/**\<newline>'' @
     '' * '' @ (description spec) @ ''\<newline>'' @
     '' * Self-healing utility with error recovery\<newline>'' @
     '' */\<newline>'' @
     ''\<newline>'' @
     ''interface '' @ (name spec) @ ''Options {\<newline>'' @
     ''  retries?: number;\<newline>'' @
     ''  timeout?: number;\<newline>'' @
     ''  fallback?: any;\<newline>'' @
     ''}\<newline>'' @
     ''\<newline>'' @
     ''export function '' @ (name spec) @ ''(\<newline>'' @
     ''  '' @ (optJoin '', '' (map_option (map (\<lambda>input.
           input @ '': any'')) (inputs spec))) @ '',\<newline>'' @
     ''  options: '' @ (name spec) @ ''Options = {}\<newline>'' @
     ''): any {\<newline>'' @
     ''  const { retries = 3, timeout = 5000, fallback = null } = options;\<newline>'' @
     ''\<newline>'' @
     ''  try {\<newline>'' @
     ''    // Input validation\<newline>'' @
     ''    '' @ (optJoin [] (map_option (map (\<lambda>input.
           ''\<newline>'' @
           ''    if ('' @ input @ '' == null) {\<newline>'' @
           ''      console.warn('' @ [CHR 0x27] @ (name spec) @ '': Invalid '' @ input @ '', using fallback');\<newline>'' @
           ''      return fallback;\<newline>'' @
           ''    }'')) (inputs spec))) @ ''\<newline>'' @
     ''\<newline>'' @
     ''    // Main implementation with timeout\<newline>'' @
     ''    const result = performOperation('' @ (optJoin '', '' (inputs spec)) @ '');\<newline>'' @
     ''    \<newline>'' @
     ''    // Output validation\<newline>'' @
     ''    if (result == null) {\<newline>'' @
     ''      throw new Error('Invalid result');\<newline>'' @
     ''    }\<newline>'' @
     ''\<newline>'' @
     ''    return result;\<newline>'' @
     ''  } catch (error) {\<newline>'' @
     ''    console.error('' @ [CHR 0x27] @ (name spec) @ '' error:', error);\<newline>'' @
     ''    \<newline>'' @
     ''    // Auto-retry mechanism\<newline>'' @
     ''    if (retries > 0) {\<newline>'' @
     ''      console.log('' @ [CHR 0x27] @ (name spec) @ '': Retrying...', { retries });\<newline>'' @
     ''      return '' @ (name spec) @ ''('' @ (optJoin '', '' (inputs spec)) @ '', { ...options, retries: retries - 1 });\<newline>'' @
     ''    }\<newline>'' @
     ''    \<newline>'' @
     ''    // Fallback value\<newline>'' @
     ''    return fallback;\<newline>'' @
     ''  }\<newline>'' @
     ''}\<newline>'' @
     ''\<newline>'' @
     ''function performOperation('' @ (optJoin '', '' (map_option (map (\<lambda>input.
           input @ '': any'')) (inputs spec))) @ ''): any {\<newline>'' @
     ''  // Core implementation logic\<newline>'' @
     ''  return {};\<newline>'' @
     ''}''\<close>

definition generateMinimalApi :: "FeatureSpec \<Rightarrow> string" where
  "generateMinimalApi spec = ''// API implementation''"

definition generateMinimalHook :: "FeatureSpec \<Rightarrow> string" where
  "generateMinimalHook spec = ''// Hook implementation''"

definition generateMinimalGeneric :: "FeatureSpec \<Rightarrow> string" where
  "generateMinimalGeneric spec = ''// Generic implementation''"

definition generateSelfHealingApi :: "FeatureSpec \<Rightarrow> string" where
  "generateSelfHealingApi spec = ''// Self-healing API''"

definition generateSelfHealingHook :: "FeatureSpec \<Rightarrow> string" where
  "generateSelfHealingHook spec = ''// Self-healing hook''"

definition generateSelfHealingGeneric :: "FeatureSpec \<Rightarrow> string" where
  "generateSelfHealingGeneric spec = ''// Self-healing generic''"

definition getRelativeImportPath :: "FeatureSpec \<Rightarrow> string" where
  "getRelativeImportPath spec = ''../../'' @ type spec @ ''s/'' @ name spec"

definition generateTestContent :: "FeatureSpec \<Rightarrow> string" where
  "generateTestContent spec =
     (let importPath = getRelativeImportPath spec
      in if type spec = ''component'' then generateComponentTest spec importPath
         else if type spec = ''utility'' then generateUtilityTest spec importPath
         else if type spec = ''api'' then generateApiTest spec importPath
         else if type spec = ''hook'' then generateHookTest spec importPath
         else generateGenericTest spec importPath)"

definition generateMinimalImplementation :: "FeatureSpec \<Rightarrow> string" where
  "generateMinimalImplementation spec =
     (if type spec = ''component'' then generateMinimalComponent spec
      else if type spec = ''utility'' then generateMinimalUtility spec
      else if type spec = ''api'' then generateMinimalApi spec
      else if type spec = ''hook'' then generateMinimalHook spec
      else generateMinimalGeneric spec)"

definition generateSelfHealingImplementation :: "FeatureSpec \<Rightarrow> string" where
  "generateSelfHealingImplementation spec =
     (if type spec = ''component'' then generateSelfHealingComponent spec
      else if type spec = ''utility'' then generateSelfHealingUtility spec
      else if type spec = ''api'' then generateSelfHealingApi spec
      else if type spec = ''hook'' then generateSelfHealingHook spec
      else generateSelfHealingGeneric spec)"

section \<open>The TDD protocol: writing the files\<close>

definition detectTDDConfig :: "ProjectMap \<Rightarrow> TDDConfig" where
  \<comment> \<open>the project map is an object, so the \<open>if (projectMap)\<close> of the source is taken\<close>
  "detectTDDConfig projectMap =
     \<lparr>testFramework = ''jest'',
      testLocation =
        js_or_default (Some (TestingFramework.testLocation (ProjectMap.testFramework projectMap)))
          ''__tests__'',
      componentLocation =
        js_or_default (canonicalLocations (structure projectMap) ''components'') ''src/components'',
      utilityLocation =
        js_or_default (canonicalLocations (structure projectMap) ''lib'') ''src/lib''\<rparr>"

definition newTDDProtocol :: "execSync \<Rightarrow> bool \<Rightarrow> TDDProtocol" where
  \<comment> \<open>the constructor\<close>
  "newTDDProtocol exec jestConfig =
     (let projectMap = analyzeProject exec jestConfig
      in \<lparr>intelligence = projectMap, config = detectTDDConfig projectMap\<rparr>)"

definition getTestPath :: "PathModule \<Rightarrow> TDDProtocol \<Rightarrow> FeatureSpec \<Rightarrow> string" where
  "getTestPath P this spec =
     (let testDir = path_join P [testLocation (config this), type spec @ ''s'']
      in path_join P [testDir, name spec @ ''.test.tsx''])"

definition getImplementationPath :: "PathModule \<Rightarrow> TDDProtocol \<Rightarrow> FeatureSpec \<Rightarrow> string" where
  "getImplementationPath P this spec =
     (if type spec = ''component'' then path_join P [componentLocation (config this), name spec @ ''.tsx'']
      else if type spec = ''utility'' then path_join P [utilityLocation (config this), name spec @ ''.ts'']
      else if type spec = ''api'' then path_join P [''src/app/api'', toLowerCase (name spec), ''route.ts'']
      else if type spec = ''hook'' then path_join P [''src/hooks'', ''use'' @ name spec @ ''.ts'']
      else path_join P [''src'', name spec @ ''.ts''])"

definition ensureDirectoryExists :: "FileSystem \<Rightarrow> string \<Rightarrow> FileSystem" where
  "ensureDirectoryExists fs dirPath = (if \<not> existsSync fs dirPath then mkdirSync fs dirPath else fs)"

definition createFailingTest ::
  "PathModule \<Rightarrow> TDDProtocol \<Rightarrow> FeatureSpec \<Rightarrow> FileSystem \<Rightarrow> fs_exception + FileSystem" where
  "createFailingTest P this spec fs =
     (let testPath = getTestPath P this spec;
          testContent = generateTestContent spec;
          fs1 = ensureDirectoryExists fs (dirname P testPath)
      in writeFileSync fs1 testPath testContent)"

definition createMinimalImplementation ::
  "PathModule \<Rightarrow> TDDProtocol \<Rightarrow> FeatureSpec \<Rightarrow> FileSystem \<Rightarrow> fs_exception + FileSystem" where
  "createMinimalImplementation P this spec fs =
     (let implementationPath = getImplementationPath P this spec;
          implementationContent = generateMinimalImplementation spec;
          fs1 = ensureDirectoryExists fs (dirname P implementationPath)
      in writeFileSync fs1 implementationPath implementationContent)"

definition addSelfHealingMechanisms ::
  "PathModule \<Rightarrow> TDDProtocol \<Rightarrow> FeatureSpec \<Rightarrow> FileSystem \<Rightarrow> fs_exception + FileSystem" where
  "addSelfHealingMechanisms P this spec fs =
     (let implementationPath = getImplementationPath P this spec;
          enhancedContent = generateSelfHealingImplementation spec
      in writeFileSync fs implementationPath enhancedContent)"

text \<open>
  \<open>createFeature\<close> returns early, having written nothing, when the duplicate
  check or the naming check refuses the feature; the promise it returns is
  rejected when a write throws. The result says which of these happened, and
  gives the file system it leaves.
\<close>

datatype outcome = DuplicateDetected | NamingIssues | Created

definition createFeature ::
  "PathModule \<Rightarrow> TDDProtocol \<Rightarrow> FeatureSpec \<Rightarrow> FileSystem \<Rightarrow> fs_exception + outcome \<times> FileSystem" where
  "createFeature P this spec fs =
     (let duplicationCheck = preventDuplication (intelligence this) (name spec)
      in if isDuplicate duplicationCheck then Inr (DuplicateDetected, fs)
         else
           let namingValidation = validateNaming (intelligence this) (name spec) (type spec)
           in if \<not> isValid namingValidation then Inr (NamingIssues, fs)
              else
                (case createFailingTest P this spec fs of
                   Inl e \<Rightarrow> Inl e
                 | Inr fs1 \<Rightarrow>
                     (case createMinimalImplementation P this spec fs1 of
                        Inl e \<Rightarrow> Inl e
                      | Inr fs2 \<Rightarrow>
                          (case addSelfHealingMechanisms P this spec fs2 of
                             Inl e \<Rightarrow> Inl e
                           | Inr fs3 \<Rightarrow> Inr (Created, fs3)))))"

section \<open>Definitions used in the statements\<close>

definition scanned :: "execSync \<Rightarrow> string \<Rightarrow> string list" where
  \<comment> \<open>the list \<open>findDirectories\<close> returns\<close>
  "scanned exec role = (case findDirectories exec role of Inl e \<Rightarrow> [] | Inr dirs \<Rightarrow> dirs)"

definition roleResult ::
  "execSync \<Rightarrow> string \<Rightarrow> string \<Rightarrow> DirectoryStructure \<Rightarrow> DirectoryStructure" where
  \<comment> \<open>what one block of \<open>mapStructure\<close> leaves\<close>
  "roleResult exec role preferred ds =
     (if length (scanned exec role) > 1
      then \<lparr>canonicalLocations =
              (canonicalLocations ds)(role := selectCanonicalLocation (scanned exec role) preferred),
            forbiddenLocations =
              forbiddenLocations ds @
              filter (\<lambda>dir. Some dir \<noteq> selectCanonicalLocation (scanned exec role) preferred)
                (scanned exec role),
            duplicateStructures = duplicateStructures ds @ scanned exec role\<rparr>
      else ds)"

definition preferredOf :: "string \<Rightarrow> string" where
  \<comment> \<open>the preferred substring \<open>mapStructure\<close> passes for each of its three roles\<close>
  "preferredOf role =
     (if role = ''components'' then ''src/components''
      else if role = ''docs'' then ''docs''
      else ''src/lib'')"

text \<open>
  Two states of the file system. In \<open>missingRoot\<close> every command exits with a
  non-zero status, as \<open>find\<close> piped into \<open>grep -v\<close> does when there is nothing to
  list. In \<open>scenarioExec\<close> the tree holds the directories \<open>components\<close>,
  \<open>lib/components\<close> and \<open>src/components\<close>, and nothing else that a command of the
  source looks for.
\<close>

definition missingRoot :: execSync where
  "missingRoot cmd = Inl ExecError"

definition scenarioExec :: execSync where
  \<open>scenarioExec cmd =
     (if cmd = ''find . -name "components" -type d | grep -v node_modules''
      then Inr ''./components\<newline>./lib/components\<newline>./src/components\<newline>''
      else Inl ExecError)\<close>

definition scenarioExecWithTests :: execSync where
  \<comment> \<open>the tree of \<open>scenarioExec\<close> with a directory \<open>test\<close> added\<close>
  \<open>scenarioExecWithTests cmd =
     (if cmd = ''find . -name "test" -type d | grep -v node_modules''
      then Inr ''./test\<newline>''
      else scenarioExec cmd)\<close>

text \<open>
  The inferencer as the specification words it: each name is matched against the
  three regular expressions of \<open>matchesPattern\<close>, and the convention with the
  highest count wins, PascalCase before camelCase before kebab-case on a tie.
\<close>

definition matchCount :: "string \<Rightarrow> string list \<Rightarrow> nat" where
  "matchCount pattern files = length (filter (\<lambda>f. matchesPattern f pattern) files)"

definition spec_inferConvention :: "string list \<Rightarrow> string" where
  "spec_inferConvention files =
     (let pascal = matchCount ''PascalCase'' files;
          camel = matchCount ''camelCase'' files;
          kebab = matchCount ''kebab-case'' files
      in if pascal \<ge> camel \<and> pascal \<ge> kebab then ''PascalCase''
         else if camel \<ge> kebab then ''camelCase''
         else ''kebab-case'')"

text \<open>
  A tree with the one directory \<open>src/components\<close>, which holds \<open>LoginForm.tsx\<close>.
\<close>

definition loginFormExec :: execSync where
  \<open>loginFormExec cmd =
     (if cmd = ''find . -path "*/components/*" -name "*.tsx" | grep -v node_modules''
      then Inr ''./src/components/LoginForm.tsx\<newline>''
      else if cmd = ''find . -name "components" -type d | grep -v node_modules''
      then Inr ''./src/components\<newline>''
      else Inl ExecError)\<close>

text \<open>
  For the examples of the TDD protocol: \<open>simplePath\<close> joins with a slash and
  takes everything before the last slash as the directory, as Node's \<open>path\<close>
  does on the relative paths without \<open>.\<close> and \<open>..\<close> segments that occur here;
  \<open>exampleSpec\<close> is the specification the command-line entry of the source
  builds, and \<open>widgetSpec\<close> the same with a kind that is none of the four;
  \<open>exampleProtocol\<close> is the object constructed in an empty tree; \<open>existingFs\<close>
  holds both target files of \<open>exampleSpec\<close> already.
\<close>

definition simplePath :: PathModule where
  "simplePath =
     \<lparr>path_join = join ''/'',
      dirname = (\<lambda>p. join ''/'' (butlast (split CHR ''/'' p)))\<rparr>"

definition exampleSpec :: FeatureSpec where
  "exampleSpec =
     \<lparr>name = ''UserProfile'', type = ''component'',
      description = ''User profile display component'',
      inputs = Some [''userId'', ''displayMode''],
      outputs = Some [''profileData''],
      errorCases = Some [''networkError'', ''invalidUser'']\<rparr>"

definition widgetSpec :: FeatureSpec where
  "widgetSpec = exampleSpec\<lparr>type := ''widget''\<rparr>"

definition exampleProtocol :: TDDProtocol where
  "exampleProtocol = newTDDProtocol missingRoot False"

definition existingFs :: FileSystem where
  "existingFs =
     [''__tests__/components'' \<mapsto> Directory,
      ''src/components'' \<mapsto> Directory,
      ''__tests__/components/UserProfile.test.tsx'' \<mapsto> File ''old test'',
      ''src/components/UserProfile.tsx'' \<mapsto> File ''old implementation'']"

definition isFile :: "FileSystem \<Rightarrow> string \<Rightarrow> bool" where
  \<comment> \<open>the path names a file\<close>
  "isFile fs p = (case fs p of Some (File c) \<Rightarrow> True | _ \<Rightarrow> False)"

text \<open>
  A tree whose component files have camelCase names, and the specification of
  \<open>exampleSpec\<close> with the kind \<open>apiRoutes\<close>, which is none of the four kinds and is
  a key of the naming patterns.
\<close>

definition buttonExec :: execSync where
  \<open>buttonExec cmd =
     (if cmd = ''find . -path "*/components/*" -name "*.tsx" | grep -v node_modules''
      then Inr ''./src/components/button.tsx\<newline>./src/components/navBar.tsx\<newline>./src/components/card.tsx\<newline>''
      else Inl ExecError)\<close>


section \<open>Strings and the scanner: lemmas\<close>

lemma str_includes_iff: "str_includes s sub \<longleftrightarrow> (\<exists>p q. s = p @ sub @ q)"
proof (induction s)
  case Nil
  then show ?case by auto
next
  case (Cons c cs)
  show ?case
  proof
    assume "str_includes (c # cs) sub"
    then consider "prefix sub (c # cs)" | "str_includes cs sub" by auto
    then show "\<exists>p q. c # cs = p @ sub @ q"
    proof cases
      case 1
      then obtain q where "c # cs = sub @ q" by (auto simp: prefix_def)
      then have "c # cs = [] @ sub @ q" by simp
      then show ?thesis by blast
    next
      case 2
      with Cons.IH obtain p q where "cs = p @ sub @ q" by blast
      then have "c # cs = (c # p) @ sub @ q" by simp
      then show ?thesis by blast
    qed
  next
    assume "\<exists>p q. c # cs = p @ sub @ q"
    then obtain p q where pq: "c # cs = p @ sub @ q" by blast
    show "str_includes (c # cs) sub"
    proof (cases p)
      case Nil
      with pq have "prefix sub (c # cs)" by (simp add: prefix_def)
      then show ?thesis by simp
    next
      case (Cons a p')
      with pq have "cs = p' @ sub @ q" by simp
      with Cons.IH have "str_includes cs sub" by blast
      then show ?thesis by simp
    qed
  qed
qed

lemma str_includes_empty: "str_includes s []"
  by (cases s) simp_all

lemma findDirectories_Inr: "findDirectories exec nm = Inr (scanned exec nm)"
  by (simp add: findDirectories_def scanned_def split: sum.splits)

lemma findFiles_total: "\<exists>files. findFiles exec pattern directory = Inr files"
  by (simp add: findFiles_def Let_def split: sum.splits)

lemma scanned_missingRoot: "scanned missingRoot role = []"
  by (simp add: scanned_def findDirectories_def missingRoot_def)

lemma findFiles_missingRoot: "findFiles missingRoot pattern directory = Inr []"
  by (simp add: findFiles_def missingRoot_def Let_def)

lemma scanned_scenario_components:
  "scanned scenarioExec ''components'' =
     [''./components'', ''./lib/components'', ''./src/components'']"
  by (simp add: scanned_def findDirectories_def scenarioExec_def trim_def isSpace_def Boolean_def)

lemma scanned_scenario_docs: "scanned scenarioExec ''docs'' = []"
  by (simp add: scanned_def findDirectories_def scenarioExec_def)

lemma scanned_scenario_lib: "scanned scenarioExec ''lib'' = []"
  by (simp add: scanned_def findDirectories_def scenarioExec_def)

section \<open>The duplicate detector: lemmas\<close>

lemma find_mem: "List.find P xs = Some p \<Longrightarrow> p \<in> set xs"
  by (auto simp: find_Some_iff)

lemma select_found:
  assumes "List.find (\<lambda>loc. str_includes loc preferred) locations = Some p"
  shows "selectCanonicalLocation locations preferred = Some p"
proof (cases "p = []")
  case False
  with assms show ?thesis by (simp add: selectCanonicalLocation_def js_or_def Boolean_def)
next
  case True
  with assms have inc: "str_includes [] preferred" by (auto simp: find_Some_iff)
  then have pref: "preferred = []" by simp
  then have all: "\<And>loc. str_includes loc preferred" by (simp add: str_includes_empty)
  from assms obtain x xs where xs: "locations = x # xs" by (cases locations) auto
  with all assms have "p = x" by simp
  with xs assms True pref show ?thesis
    by (simp add: selectCanonicalLocation_def js_or_def Boolean_def at0_def str_includes_empty)
qed

lemma select_not_found:
  assumes "List.find (\<lambda>loc. str_includes loc preferred) locations = None"
  shows "selectCanonicalLocation locations preferred = at0 locations"
  using assms by (simp add: selectCanonicalLocation_def js_or_def)

lemma select_mem:
  assumes "selectCanonicalLocation locations preferred = Some p"
  shows "p \<in> set locations"
proof (cases "List.find (\<lambda>loc. str_includes loc preferred) locations")
  case None
  with assms have "at0 locations = Some p" by (simp add: select_not_found)
  then show ?thesis by (auto simp: at0_def split: list.splits)
next
  case (Some q)
  with assms have "q = p" by (simp add: select_found)
  with Some show ?thesis by (auto dest: find_mem)
qed

lemma select_nonempty:
  assumes "locations \<noteq> []"
  shows "\<exists>p. selectCanonicalLocation locations preferred = Some p"
proof (cases "List.find (\<lambda>loc. str_includes loc preferred) locations")
  case None
  with assms show ?thesis by (cases locations) (auto simp: select_not_found at0_def)
next
  case (Some q)
  then show ?thesis by (auto simp: select_found)
qed

lemma scanRole_Inr:
  "scanRole exec role preferred ds = Inr (roleResult exec role preferred ds)"
  by (simp add: scanRole_def findDirectories_Inr roleResult_def Let_def)

lemma mapStructure_eq:
  "mapStructure exec =
     roleResult exec ''lib'' ''src/lib''
       (roleResult exec ''docs'' ''docs''
          (roleResult exec ''components'' ''src/components''
             \<lparr>canonicalLocations = Map.empty, forbiddenLocations = [], duplicateStructures = []\<rparr>))"
  by (simp add: mapStructure_def scanRole_Inr Let_def)

lemma roleResult_forbidden:
  "forbiddenLocations (roleResult exec role preferred ds) =
     forbiddenLocations ds @
       (if length (scanned exec role) > 1
        then filter (\<lambda>dir. Some dir \<noteq> selectCanonicalLocation (scanned exec role) preferred)
               (scanned exec role)
        else [])"
  by (simp add: roleResult_def)

lemma mapStructure_canonical:
  "canonicalLocations (mapStructure exec) role =
     (if role \<in> {''components'', ''docs'', ''lib''} \<and> length (scanned exec role) > 1
      then selectCanonicalLocation (scanned exec role) (preferredOf role)
      else None)"
  by (simp add: mapStructure_eq roleResult_def preferredOf_def)

lemma mapStructure_forbidden:
  "role \<in> {''components'', ''docs'', ''lib''} \<Longrightarrow> length (scanned exec role) > 1 \<Longrightarrow>
   set (filter (\<lambda>dir. Some dir \<noteq> selectCanonicalLocation (scanned exec role) (preferredOf role))
          (scanned exec role)) \<subseteq> set (forbiddenLocations (mapStructure exec))"
  by (auto simp add: mapStructure_eq roleResult_forbidden preferredOf_def)

lemma mapStructure_missingRoot:
  "mapStructure missingRoot =
     \<lparr>canonicalLocations = Map.empty, forbiddenLocations = [], duplicateStructures = []\<rparr>"
  by (simp add: mapStructure_eq roleResult_def scanned_missingRoot)

lemma mapStructure_scenario:
  "mapStructure scenarioExec =
     \<lparr>canonicalLocations = [''components'' \<mapsto> ''./src/components''],
      forbiddenLocations = [''./components'', ''./lib/components''],
      duplicateStructures = [''./components'', ''./lib/components'', ''./src/components'']\<rparr>"
  by (simp add: mapStructure_eq roleResult_def scanned_scenario_components scanned_scenario_docs
      scanned_scenario_lib selectCanonicalLocation_def js_or_def Boolean_def)

lemma find_first_index:
  assumes "List.find P xs = Some p"
  shows "\<exists>i<length xs. p = xs ! i \<and> P p \<and> (\<forall>j<i. \<not> P (xs ! j))"
  using assms by (auto simp: find_Some_iff)

lemma select_first:
  assumes "locations \<noteq> []"
  shows "\<exists>p. selectCanonicalLocation locations preferred = Some p \<and>
           (if \<exists>loc \<in> set locations. str_includes loc preferred
            then \<exists>i<length locations. p = locations ! i \<and> str_includes p preferred \<and>
                   (\<forall>j<i. \<not> str_includes (locations ! j) preferred)
            else p = locations ! 0)"
proof (cases "List.find (\<lambda>loc. str_includes loc preferred) locations")
  case None
  then have no: "\<not> (\<exists>loc \<in> set locations. str_includes loc preferred)"
    by (simp add: find_None_iff)
  from assms obtain x xs where "locations = x # xs" by (cases locations) auto
  with None have "selectCanonicalLocation locations preferred = Some (locations ! 0)"
    by (simp add: select_not_found at0_def)
  with no show ?thesis by simp
next
  case (Some q)
  then have sel: "selectCanonicalLocation locations preferred = Some q" by (rule select_found)
  from Some have yes: "\<exists>loc \<in> set locations. str_includes loc preferred"
    by (auto simp: find_Some_iff)
  from find_first_index [OF Some] sel yes show ?thesis by simp
qed

section \<open>C1: the canonical path is the first match, else the first path\<close>

text \<open>
  Claim C1, as amended. For a non-empty list of paths, \<open>selectCanonicalLocation\<close>
  returns the first path of the list that contains the preferred substring; when
  no path contains it, it returns the first path of the list, in the order of the
  scan (not the lexicographically first one). When \<open>mapStructure\<close> finds more than
  one directory for one of its roles, it records that path as the canonical
  location of the role, and every other path of the list is among the forbidden
  locations.
\<close>

theorem selectCanonicalLocation_first_in_list_order:
  "(locations \<noteq> [] \<longrightarrow>
      (\<exists>p. selectCanonicalLocation locations preferred = Some p \<and>
           (if \<exists>loc \<in> set locations. str_includes loc preferred
            then \<exists>i<length locations. p = locations ! i \<and> str_includes p preferred \<and>
                   (\<forall>j<i. \<not> str_includes (locations ! j) preferred)
            else p = locations ! 0))) \<and>
   ((role, preferred) \<in>
        {(''components'', ''src/components''), (''docs'', ''docs''), (''lib'', ''src/lib'')} \<longrightarrow>
    findDirectories exec role = Inr dirs \<longrightarrow> length dirs > 1 \<longrightarrow>
      canonicalLocations (mapStructure exec) role = selectCanonicalLocation dirs preferred \<and>
      (\<forall>dir \<in> set dirs. Some dir \<noteq> selectCanonicalLocation dirs preferred \<longrightarrow>
         dir \<in> set (forbiddenLocations (mapStructure exec))))"
proof (intro conjI impI)
  assume "locations \<noteq> []"
  then show "\<exists>p. selectCanonicalLocation locations preferred = Some p \<and>
           (if \<exists>loc \<in> set locations. str_includes loc preferred
            then \<exists>i<length locations. p = locations ! i \<and> str_includes p preferred \<and>
                   (\<forall>j<i. \<not> str_includes (locations ! j) preferred)
            else p = locations ! 0)"
    by (rule select_first)
next
  assume rp: "(role, preferred) \<in>
        {(''components'', ''src/components''), (''docs'', ''docs''), (''lib'', ''src/lib'')}"
    and fd: "findDirectories exec role = Inr dirs" and len: "length dirs > 1"
  from fd have dirs: "scanned exec role = dirs" by (simp add: scanned_def)
  from rp have role: "role \<in> {''components'', ''docs'', ''lib''}" by auto
  from rp have pref: "preferredOf role = preferred" by (auto simp: preferredOf_def)
  from role len dirs pref
  show "canonicalLocations (mapStructure exec) role = selectCanonicalLocation dirs preferred"
    by (simp add: mapStructure_canonical)
  from mapStructure_forbidden [OF role, of exec] len dirs pref
  show "\<forall>dir \<in> set dirs. Some dir \<noteq> selectCanonicalLocation dirs preferred \<longrightarrow>
         dir \<in> set (forbiddenLocations (mapStructure exec))"
    by auto
qed

text \<open>
  The scenario of the specification: the scan finds \<open>./components\<close>,
  \<open>./lib/components\<close> and \<open>./src/components\<close>; the canonical location is
  \<open>./src/components\<close> and the two other paths are forbidden.
\<close>

theorem selectCanonicalLocation_first_in_list_order_witness:
  "selectCanonicalLocation [''./components'', ''./lib/components'', ''./src/components'']
       ''src/components'' = Some ''./src/components'' \<and>
   findDirectories scenarioExec ''components'' =
     Inr [''./components'', ''./lib/components'', ''./src/components''] \<and>
   canonicalLocations (mapStructure scenarioExec) ''components'' = Some ''./src/components'' \<and>
   ''./components'' \<in> set (forbiddenLocations (mapStructure scenarioExec)) \<and>
   ''./lib/components'' \<in> set (forbiddenLocations (mapStructure scenarioExec))"
proof -
  have sel: "selectCanonicalLocation [''./components'', ''./lib/components'', ''./src/components'']
       ''src/components'' = Some ''./src/components''"
    by (simp add: selectCanonicalLocation_def js_or_def Boolean_def)
  have fd: "findDirectories scenarioExec ''components'' =
     Inr [''./components'', ''./lib/components'', ''./src/components'']"
    by (simp add: findDirectories_Inr scanned_scenario_components)
  from selectCanonicalLocation_first_in_list_order
    [of "[''./components'', ''./lib/components'', ''./src/components'']" "''src/components''"
        "''components''" scenarioExec "[''./components'', ''./lib/components'', ''./src/components'']"]
    sel fd
  show ?thesis by simp
qed

text \<open>
  Claim C1 as the specification states it fails: no path of the list
  \<open>[./lib/components, ./components]\<close> contains \<open>src/components\<close>, the
  lexicographically first path is \<open>./components\<close>, and the canonical path is
  \<open>./lib/components\<close>, the first of the list.
\<close>

theorem selectCanonicalLocation_not_lexicographic:
  "\<not> str_includes ''./lib/components'' ''src/components'' \<and>
   \<not> str_includes ''./components'' ''src/components'' \<and>
   ''./components'' < ''./lib/components'' \<and>
   selectCanonicalLocation [''./lib/components'', ''./components''] ''src/components'' =
     Some ''./lib/components''"
  by (simp add: selectCanonicalLocation_def js_or_def Boolean_def at0_def)

section \<open>C5: the scanner never fails\<close>

lemma findDirectories_cases:
  \<open>findDirectories exec nm =
     Inr (case exec (''find . -name "'' @ nm @ ''" -type d | grep -v node_modules'') of
            Inl e \<Rightarrow> []
          | Inr out \<Rightarrow> filter Boolean (split CHR ''\<newline>'' (trim out)))\<close>
  by (cases \<open>exec (''find . -name "'' @ nm @ ''" -type d | grep -v node_modules'')\<close>)
     (simp_all add: findDirectories_def)

lemma findFiles_cases:
  \<open>findFiles exec pattern directory =
     Inr (case exec (''find . '' @
                (case directory of None \<Rightarrow> []
                 | Some d \<Rightarrow> if d = [] then [] else ''-path "*/'' @ d @ ''/*"'') @
                '' -name "'' @ pattern @ ''" | grep -v node_modules'') of
            Inl e \<Rightarrow> []
          | Inr out \<Rightarrow> filter Boolean (split CHR ''\<newline>'' (trim out)))\<close>
proof -
  let ?cmd = \<open>''find . '' @
                (case directory of None \<Rightarrow> []
                 | Some d \<Rightarrow> if d = [] then [] else ''-path "*/'' @ d @ ''/*"'') @
                '' -name "'' @ pattern @ ''" | grep -v node_modules''\<close>
  have "findFiles exec pattern directory =
     (case exec ?cmd of
        Inr result \<Rightarrow> Inr (filter Boolean (split CHR ''\<newline>'' (trim result)))
      | Inl e \<Rightarrow> Inr [])"
    by (cases directory) (simp_all add: findFiles_def Let_def Boolean_def)
  then show ?thesis by (cases "exec ?cmd") simp_all
qed

text \<open>
  Claim C5, as amended. \<open>findDirectories\<close> and \<open>findFiles\<close> never fail: each
  returns a list, whose elements are non-empty strings. When the command of the
  scan fails, as it does for a root under which nothing is found, the list is
  empty; when it succeeds, the list holds the non-empty lines of its trimmed
  output. No error is raised, for a missing root or for a directory that cannot
  be read.
\<close>

theorem scanner_never_fails:
  \<open>(\<exists>dirs. findDirectories exec nm = Inr dirs \<and> (\<forall>d \<in> set dirs. d \<noteq> []) \<and>
      ((\<exists>e. exec (''find . -name "'' @ nm @ ''" -type d | grep -v node_modules'') = Inl e)
         \<longrightarrow> dirs = []) \<and>
      (\<forall>out. exec (''find . -name "'' @ nm @ ''" -type d | grep -v node_modules'') = Inr out
         \<longrightarrow> dirs = filter Boolean (split CHR ''\<newline>'' (trim out)))) \<and>
   (\<exists>files. findFiles exec pattern directory = Inr files \<and> (\<forall>f \<in> set files. f \<noteq> []) \<and>
      ((\<exists>e. exec (''find . '' @
                (case directory of None \<Rightarrow> []
                 | Some d \<Rightarrow> if d = [] then [] else ''-path "*/'' @ d @ ''/*"'') @
                '' -name "'' @ pattern @ ''" | grep -v node_modules'') = Inl e)
         \<longrightarrow> files = []) \<and>
      (\<forall>out. exec (''find . '' @
                (case directory of None \<Rightarrow> []
                 | Some d \<Rightarrow> if d = [] then [] else ''-path "*/'' @ d @ ''/*"'') @
                '' -name "'' @ pattern @ ''" | grep -v node_modules'') = Inr out
         \<longrightarrow> files = filter Boolean (split CHR ''\<newline>'' (trim out))))\<close>
proof (rule conjI)
  let ?cmd = \<open>''find . -name "'' @ nm @ ''" -type d | grep -v node_modules''\<close>
  let ?dirs = \<open>case exec ?cmd of Inl e \<Rightarrow> []
          | Inr out \<Rightarrow> filter Boolean (split CHR ''\<newline>'' (trim out))\<close>
  have a: "findDirectories exec nm = Inr ?dirs" by (rule findDirectories_cases)
  have b: "\<forall>d \<in> set ?dirs. d \<noteq> []" by (cases "exec ?cmd") (simp_all add: Boolean_def)
  have c: "(\<exists>e. exec ?cmd = Inl e) \<longrightarrow> ?dirs = []" by auto
  have d: "\<forall>out. exec ?cmd = Inr out \<longrightarrow> ?dirs = filter Boolean (split CHR ''\<newline>'' (trim out))"
    by simp
  from a b c d
  show \<open>\<exists>dirs. findDirectories exec nm = Inr dirs \<and> (\<forall>d \<in> set dirs. d \<noteq> []) \<and>
      ((\<exists>e. exec ?cmd = Inl e) \<longrightarrow> dirs = []) \<and>
      (\<forall>out. exec ?cmd = Inr out \<longrightarrow> dirs = filter Boolean (split CHR ''\<newline>'' (trim out)))\<close>
    by (intro exI conjI)
next
  let ?cmd = \<open>''find . '' @
                (case directory of None \<Rightarrow> []
                 | Some d \<Rightarrow> if d = [] then [] else ''-path "*/'' @ d @ ''/*"'') @
                '' -name "'' @ pattern @ ''" | grep -v node_modules''\<close>
  let ?files = \<open>case exec ?cmd of Inl e \<Rightarrow> []
          | Inr out \<Rightarrow> filter Boolean (split CHR ''\<newline>'' (trim out))\<close>
  have a: "findFiles exec pattern directory = Inr ?files" by (rule findFiles_cases)
  have b: "\<forall>f \<in> set ?files. f \<noteq> []" by (cases "exec ?cmd") (simp_all add: Boolean_def)
  have c: "(\<exists>e. exec ?cmd = Inl e) \<longrightarrow> ?files = []" by auto
  have d: "\<forall>out. exec ?cmd = Inr out \<longrightarrow> ?files = filter Boolean (split CHR ''\<newline>'' (trim out))"
    by simp
  from a b c d
  show \<open>\<exists>files. findFiles exec pattern directory = Inr files \<and> (\<forall>f \<in> set files. f \<noteq> []) \<and>
      ((\<exists>e. exec ?cmd = Inl e) \<longrightarrow> files = []) \<and>
      (\<forall>out. exec ?cmd = Inr out \<longrightarrow> files = filter Boolean (split CHR ''\<newline>'' (trim out)))\<close>
    by (intro exI conjI)
qed

text \<open>
  On \<open>missingRoot\<close> the command of each scan fails and both scans return the empty
  list; on \<open>scenarioExec\<close> and \<open>loginFormExec\<close> the command succeeds and the scan
  returns its lines.
\<close>

theorem scanner_never_fails_witness:
  \<open>missingRoot (''find . -name "components" -type d | grep -v node_modules'') = Inl ExecError \<and>
   findDirectories missingRoot ''components'' = Inr [] \<and>
   missingRoot (''find . -path "*/components/*" -name "*.tsx" | grep -v node_modules'') =
     Inl ExecError \<and>
   findFiles missingRoot ''*.tsx'' (Some ''components'') = Inr [] \<and>
   findDirectories scenarioExec ''components'' =
     Inr [''./components'', ''./lib/components'', ''./src/components''] \<and>
   findFiles loginFormExec ''*.tsx'' (Some ''components'') =
     Inr [''./src/components/LoginForm.tsx'']\<close>
proof -
  note m = scanner_never_fails [of missingRoot "''components''" "''*.tsx''" "Some ''components''"]
  note s = scanner_never_fails [of scenarioExec "''components''" "''*.tsx''" "Some ''components''"]
  note l = scanner_never_fails [of loginFormExec "''components''" "''*.tsx''" "Some ''components''"]
  have e1: \<open>missingRoot (''find . -name "components" -type d | grep -v node_modules'') =
      Inl ExecError\<close>
    and e2: \<open>missingRoot (''find . -path "*/components/*" -name "*.tsx" | grep -v node_modules'') =
      Inl ExecError\<close>
    by (simp_all add: missingRoot_def)
  have e3: \<open>scenarioExec (''find . -name "components" -type d | grep -v node_modules'') =
      Inr ''./components\<newline>./lib/components\<newline>./src/components\<newline>''\<close>
    by (simp add: scenarioExec_def)
  have e4: \<open>loginFormExec (''find . -path "*/components/*" -name "*.tsx" | grep -v node_modules'') =
      Inr ''./src/components/LoginForm.tsx\<newline>''\<close>
    by (simp add: loginFormExec_def)
  from m e1 have a: "findDirectories missingRoot ''components'' = Inr []" by auto
  from m e2 have b: "findFiles missingRoot ''*.tsx'' (Some ''components'') = Inr []" by auto
  from s e3 have c: "findDirectories scenarioExec ''components'' =
     Inr (filter Boolean (split CHR ''\<newline>''
       (trim ''./components\<newline>./lib/components\<newline>./src/components\<newline>'')))"
    by auto
  from l e4 have d: "findFiles loginFormExec ''*.tsx'' (Some ''components'') =
     Inr (filter Boolean (split CHR ''\<newline>'' (trim ''./src/components/LoginForm.tsx\<newline>'')))"
    by auto
  from c have c': "findDirectories scenarioExec ''components'' =
     Inr [''./components'', ''./lib/components'', ''./src/components'']"
    by (simp add: trim_def isSpace_def Boolean_def)
  from d have d': "findFiles loginFormExec ''*.tsx'' (Some ''components'') =
     Inr [''./src/components/LoginForm.tsx'']"
    by (simp add: trim_def isSpace_def Boolean_def)
  from e1 e2 a b c' d' show ?thesis by blast
qed

text \<open>
  Claim C5 as the specification states it fails: when every command of the scan
  fails, the scanner succeeds with an empty result, and so does \<open>mapStructure\<close>.
\<close>

theorem scanner_missing_root_gives_empty_result:
  "findDirectories missingRoot ''components'' = Inr [] \<and>
   findFiles missingRoot ''*.tsx'' (Some ''components'') = Inr [] \<and>
   mapStructure missingRoot =
     \<lparr>canonicalLocations = Map.empty, forbiddenLocations = [], duplicateStructures = []\<rparr>"
  by (simp add: findDirectories_Inr scanned_missingRoot findFiles_missingRoot mapStructure_missingRoot)

section \<open>C7: the duplicate detector is deterministic\<close>

lemma scanned_withTests: "role \<noteq> ''test'' \<Longrightarrow> scanned scenarioExecWithTests role = scanned scenarioExec role"
  by (simp add: scanned_def findDirectories_def scenarioExecWithTests_def)

text \<open>
  Claim C7. The result of the duplicate detector is determined by the scan result
  and the preferred substring: two runs of a block of \<open>mapStructure\<close> that scan
  the same list for the role, from the same structure, leave the same structure,
  and two runs of \<open>mapStructure\<close> that scan the same lists for its three roles
  return the same canonical locations, forbidden locations and duplicates,
  whatever else differs between the two states of the file system.
\<close>

theorem duplicate_detector_deterministic:
  "(findDirectories exec1 role = findDirectories exec2 role \<longrightarrow>
      scanRole exec1 role preferred ds = scanRole exec2 role preferred ds) \<and>
   ((\<forall>role \<in> {''components'', ''docs'', ''lib''}.
        findDirectories exec1 role = findDirectories exec2 role) \<longrightarrow>
      mapStructure exec1 = mapStructure exec2)"
proof (intro conjI impI)
  assume "findDirectories exec1 role = findDirectories exec2 role"
  then show "scanRole exec1 role preferred ds = scanRole exec2 role preferred ds"
    by (simp add: scanRole_def)
next
  assume "\<forall>role \<in> {''components'', ''docs'', ''lib''}.
        findDirectories exec1 role = findDirectories exec2 role"
  then have "scanned exec1 ''components'' = scanned exec2 ''components''"
    and "scanned exec1 ''docs'' = scanned exec2 ''docs''"
    and "scanned exec1 ''lib'' = scanned exec2 ''lib''"
    by (simp_all add: scanned_def)
  then show "mapStructure exec1 = mapStructure exec2"
    by (simp add: mapStructure_eq roleResult_def)
qed

text \<open>
  Two states of the file system that differ (one has a directory \<open>test\<close>) and
  agree on the three scans.
\<close>

theorem duplicate_detector_deterministic_witness:
  "scenarioExec \<noteq> scenarioExecWithTests \<and>
   findDirectories scenarioExec ''components'' = findDirectories scenarioExecWithTests ''components'' \<and>
   scanRole scenarioExec ''components'' ''src/components''
     \<lparr>canonicalLocations = Map.empty, forbiddenLocations = [], duplicateStructures = []\<rparr> =
   scanRole scenarioExecWithTests ''components'' ''src/components''
     \<lparr>canonicalLocations = Map.empty, forbiddenLocations = [], duplicateStructures = []\<rparr> \<and>
   mapStructure scenarioExec = mapStructure scenarioExecWithTests"
proof -
  have ne: "scenarioExec \<noteq> scenarioExecWithTests"
  proof
    assume "scenarioExec = scenarioExecWithTests"
    then have \<open>scenarioExec (''find . -name "test" -type d | grep -v node_modules'') =
      scenarioExecWithTests (''find . -name "test" -type d | grep -v node_modules'')\<close> by simp
    then show False by (simp add: scenarioExec_def scenarioExecWithTests_def)
  qed
  have eq1: "findDirectories scenarioExec ''components'' =
      findDirectories scenarioExecWithTests ''components''"
    by (simp add: findDirectories_Inr scanned_withTests)
  have eq: "\<forall>role \<in> {''components'', ''docs'', ''lib''}.
      findDirectories scenarioExec role = findDirectories scenarioExecWithTests role"
    by (simp add: findDirectories_Inr scanned_withTests)
  note inst = duplicate_detector_deterministic
    [of scenarioExec "''components''" scenarioExecWithTests "''src/components''"
        "\<lparr>canonicalLocations = Map.empty, forbiddenLocations = [], duplicateStructures = []\<rparr>"]
  from inst eq1 have a: "scanRole scenarioExec ''components'' ''src/components''
     \<lparr>canonicalLocations = Map.empty, forbiddenLocations = [], duplicateStructures = []\<rparr> =
   scanRole scenarioExecWithTests ''components'' ''src/components''
     \<lparr>canonicalLocations = Map.empty, forbiddenLocations = [], duplicateStructures = []\<rparr>"
    by blast
  from inst eq have b: "mapStructure scenarioExec = mapStructure scenarioExecWithTests"
    by blast
  from ne eq1 a b show ?thesis by blast
qed

section \<open>C8: the canonical path is a path of the scan\<close>

lemma js_or_default_cases:
  "js_or_default a d = d \<or> a = Some (js_or_default a d)"
  by (auto simp: js_or_default_def split: option.splits)

lemma suggestLocation_component:
  "suggestLocation pm ''component'' f =
     js_or_default (canonicalLocations (structure pm) ''components'') ''src/components''"
  by (simp add: suggestLocation_def)

lemma suggestLocation_utility:
  "suggestLocation pm ''utility'' f =
     js_or_default (canonicalLocations (structure pm) ''lib'') ''src/lib''"
  by (simp add: suggestLocation_def)

lemma suggestLocation_documentation:
  "suggestLocation pm ''documentation'' f =
     js_or_default (canonicalLocations (structure pm) ''docs'') ''docs''"
  by (simp add: suggestLocation_def)

lemma suggestLocation_role:
  assumes "(fileType, role, dflt) \<in>
     {(''component'', ''components'', ''src/components''), (''utility'', ''lib'', ''src/lib''),
      (''documentation'', ''docs'', ''docs'')}"
  shows "suggestLocation pm fileType f = js_or_default (canonicalLocations (structure pm) role) dflt"
  using assms
  by (auto simp: suggestLocation_component suggestLocation_utility suggestLocation_documentation)

lemma mapStructure_canonical_mem:
  assumes "canonicalLocations (mapStructure exec) role = Some p"
  shows "p \<in> set (scanned exec role)"
  using assms by (auto simp: mapStructure_canonical split: if_splits dest: select_mem)

lemma mapStructure_canonical_empty:
  assumes "scanned exec role = []"
  shows "canonicalLocations (mapStructure exec) role = None"
  using assms by (simp add: mapStructure_canonical)

text \<open>
  Claim C8. The path \<open>selectCanonicalLocation\<close> chooses from a non-empty list is an
  element of the list. \<open>mapStructure\<close>, the one operation that builds the map of
  canonical locations, records for a role only a path of the list scanned for
  that role. \<open>suggestLocation\<close> answers with a path of that list or with the
  default of the role, and with the default when the list is empty.
\<close>

theorem canonical_path_is_in_scan_result:
  "(locations \<noteq> [] \<longrightarrow>
      (\<exists>p. selectCanonicalLocation locations preferred = Some p \<and> p \<in> set locations)) \<and>
   (\<exists>dirs. findDirectories exec role = Inr dirs \<and>
      (\<forall>p. canonicalLocations (mapStructure exec) role = Some p \<longrightarrow> p \<in> set dirs) \<and>
      ((fileType, role, dflt) \<in>
         {(''component'', ''components'', ''src/components''), (''utility'', ''lib'', ''src/lib''),
          (''documentation'', ''docs'', ''docs'')} \<longrightarrow>
       (suggestLocation (analyzeProject exec jestConfig) fileType featureName \<in> set dirs \<or>
        suggestLocation (analyzeProject exec jestConfig) fileType featureName = dflt) \<and>
       (dirs = [] \<longrightarrow>
        suggestLocation (analyzeProject exec jestConfig) fileType featureName = dflt)))"
proof (intro conjI impI)
  assume ne: "locations \<noteq> []"
  then obtain p where p: "selectCanonicalLocation locations preferred = Some p"
    using select_nonempty by blast
  then have "p \<in> set locations" by (rule select_mem)
  with p show "\<exists>p. selectCanonicalLocation locations preferred = Some p \<and> p \<in> set locations"
    by blast
next
  let ?pm = "analyzeProject exec jestConfig"
  have st: "structure ?pm = mapStructure exec" by (simp add: analyzeProject_def)
  have a: "\<forall>p. canonicalLocations (mapStructure exec) role = Some p \<longrightarrow> p \<in> set (scanned exec role)"
    by (auto dest: mapStructure_canonical_mem)
  have b: "(fileType, role, dflt) \<in>
         {(''component'', ''components'', ''src/components''), (''utility'', ''lib'', ''src/lib''),
          (''documentation'', ''docs'', ''docs'')} \<longrightarrow>
       (suggestLocation ?pm fileType featureName \<in> set (scanned exec role) \<or>
        suggestLocation ?pm fileType featureName = dflt) \<and>
       (scanned exec role = [] \<longrightarrow> suggestLocation ?pm fileType featureName = dflt)"
  proof
    assume t: "(fileType, role, dflt) \<in>
         {(''component'', ''components'', ''src/components''), (''utility'', ''lib'', ''src/lib''),
          (''documentation'', ''docs'', ''docs'')}"
    have s: "suggestLocation ?pm fileType featureName =
        js_or_default (canonicalLocations (mapStructure exec) role) dflt"
      using suggestLocation_role [OF t, of ?pm featureName] st by simp
    have 1: "suggestLocation ?pm fileType featureName \<in> set (scanned exec role) \<or>
        suggestLocation ?pm fileType featureName = dflt"
      using js_or_default_cases [of "canonicalLocations (mapStructure exec) role" dflt] s
      by (auto dest: mapStructure_canonical_mem)
    have 2: "scanned exec role = [] \<longrightarrow> suggestLocation ?pm fileType featureName = dflt"
      using s by (auto simp: mapStructure_canonical_empty js_or_default_def)
    from 1 2 show "(suggestLocation ?pm fileType featureName \<in> set (scanned exec role) \<or>
        suggestLocation ?pm fileType featureName = dflt) \<and>
       (scanned exec role = [] \<longrightarrow> suggestLocation ?pm fileType featureName = dflt)"
      by blast
  qed
  from a b show "\<exists>dirs. findDirectories exec role = Inr dirs \<and>
      (\<forall>p. canonicalLocations (mapStructure exec) role = Some p \<longrightarrow> p \<in> set dirs) \<and>
      ((fileType, role, dflt) \<in>
         {(''component'', ''components'', ''src/components''), (''utility'', ''lib'', ''src/lib''),
          (''documentation'', ''docs'', ''docs'')} \<longrightarrow>
       (suggestLocation ?pm fileType featureName \<in> set dirs \<or>
        suggestLocation ?pm fileType featureName = dflt) \<and>
       (dirs = [] \<longrightarrow> suggestLocation ?pm fileType featureName = dflt))"
  proof (intro exI conjI)
    show "findDirectories exec role = Inr (scanned exec role)" by (rule findDirectories_Inr)
    show "\<forall>p. canonicalLocations (mapStructure exec) role = Some p \<longrightarrow>
        p \<in> set (scanned exec role)" by (rule a)
    show "(fileType, role, dflt) \<in>
         {(''component'', ''components'', ''src/components''), (''utility'', ''lib'', ''src/lib''),
          (''documentation'', ''docs'', ''docs'')} \<longrightarrow>
       (suggestLocation ?pm fileType featureName \<in> set (scanned exec role) \<or>
        suggestLocation ?pm fileType featureName = dflt) \<and>
       (scanned exec role = [] \<longrightarrow> suggestLocation ?pm fileType featureName = dflt)"
      by (rule b)
  qed
qed

text \<open>The scenario of the specification, for the role \<open>components\<close>.\<close>

theorem canonical_path_is_in_scan_result_witness:
  "selectCanonicalLocation [''./components'', ''./lib/components'', ''./src/components'']
       ''src/components'' = Some ''./src/components'' \<and>
   findDirectories scenarioExec ''components'' =
     Inr [''./components'', ''./lib/components'', ''./src/components''] \<and>
   canonicalLocations (mapStructure scenarioExec) ''components'' = Some ''./src/components'' \<and>
   suggestLocation (analyzeProject scenarioExec False) ''component'' ''LoginForm'' =
     ''./src/components'' \<and>
   ''./src/components'' \<in> set [''./components'', ''./lib/components'', ''./src/components'']"
proof -
  have sel: "selectCanonicalLocation [''./components'', ''./lib/components'', ''./src/components'']
       ''src/components'' = Some ''./src/components''"
    by (simp add: selectCanonicalLocation_def js_or_def Boolean_def)
  have fd: "findDirectories scenarioExec ''components'' =
     Inr [''./components'', ''./lib/components'', ''./src/components'']"
    by (simp add: findDirectories_Inr scanned_scenario_components)
  have can: "canonicalLocations (mapStructure scenarioExec) ''components'' = Some ''./src/components''"
    by (simp add: mapStructure_scenario)
  have sug: "suggestLocation (analyzeProject scenarioExec False) ''component'' ''LoginForm'' =
     ''./src/components''"
    by (simp add: suggestLocation_def analyzeProject_def mapStructure_scenario js_or_default_def
        Boolean_def)
  from canonical_path_is_in_scan_result
    [of "[''./components'', ''./lib/components'', ''./src/components'']" "''src/components''"
        scenarioExec "''components''" "''component''" "''src/components''" False "''LoginForm''"]
    sel fd can sug
  show ?thesis by simp
qed

section \<open>C10: a conforming name is its own suggestion\<close>

lemma upper_not_lower: "isUpper c \<Longrightarrow> \<not> isLower c"
  by (auto simp: isUpper_def isLower_def less_eq_char_def)

lemma digit_not_upper: "isDigit c \<Longrightarrow> \<not> isUpper c"
  by (auto simp: isUpper_def isDigit_def less_eq_char_def)

lemma lower_not_hyphen: "isLower c \<Longrightarrow> c \<noteq> CHR ''-''"
  by (auto simp: isLower_def less_eq_char_def)

lemma hyphen_not_upper: "\<not> isUpper (CHR ''-'')"
  by (simp add: isUpper_def)

lemma toUpperChar_upper: "isUpper c \<Longrightarrow> toUpperChar c = c"
  by (simp add: toUpperChar_def upper_not_lower)

lemma toLowerChar_not_upper: "\<not> isUpper c \<Longrightarrow> toLowerChar c = c"
  by (simp add: toLowerChar_def)

lemma toLowerCase_no_upper: "list_all (\<lambda>c. \<not> isUpper c) s \<Longrightarrow> toLowerCase s = s"
  by (induction s) (simp_all add: toLowerCase_def toLowerChar_not_upper)

lemma replaceUpper_no_upper: "list_all (\<lambda>c. \<not> isUpper c) s \<Longrightarrow> replaceUpper s = s"
  by (induction s) (simp_all add: replaceUpper_def)

lemma suggest_pascal:
  assumes "matchesPattern nm ''PascalCase''"
  shows "suggestCorrectNaming nm ''PascalCase'' = nm"
proof -
  from assms obtain c cs where nm: "nm = c # cs" and "isUpper c"
    by (cases nm) (auto simp: matchesPattern_def)
  then show ?thesis
    by (simp add: suggestCorrectNaming_def toUpperCase_def toUpperChar_upper)
qed

lemma suggest_camel:
  assumes "matchesPattern nm ''camelCase''"
  shows "suggestCorrectNaming nm ''camelCase'' = nm"
proof -
  from assms obtain c cs where nm: "nm = c # cs" and "isLower c"
    by (cases nm) (auto simp: matchesPattern_def)
  then have "\<not> isUpper c" using upper_not_lower by blast
  with nm show ?thesis
    by (simp add: suggestCorrectNaming_def toLowerCase_def toLowerChar_not_upper)
qed

lemma suggest_kebab:
  assumes "matchesPattern nm ''kebab-case''"
  shows "suggestCorrectNaming nm ''kebab-case'' = nm"
proof -
  from assms obtain c cs where nm: "nm = c # cs" and c: "isLower c"
    and cs: "list_all (\<lambda>d. isLower d \<or> isDigit d \<or> d = CHR ''-'') cs"
    by (cases nm) (auto simp: matchesPattern_def)
  from c have cu: "\<not> isUpper c" using upper_not_lower by blast
  from cs have "list_all (\<lambda>d. \<not> isUpper d) cs"
    by (auto simp: list_all_iff dest: upper_not_lower digit_not_upper simp: hyphen_not_upper)
  with cu nm have no: "list_all (\<lambda>d. \<not> isUpper d) nm" by simp
  from c have "c \<noteq> CHR ''-''" by (rule lower_not_hyphen)
  with nm have "replaceLeadingHyphen nm = nm" by (simp add: replaceLeadingHyphen_def)
  with no show ?thesis
    by (simp add: suggestCorrectNaming_def toLowerCase_no_upper replaceUpper_no_upper)
qed

text \<open>
  Claim C10. For each of the conventions PascalCase, camelCase and kebab-case, a
  name that \<open>matchesPattern\<close> accepts is returned unchanged by
  \<open>suggestCorrectNaming\<close>; hence a second application changes nothing when the
  first one gave a conforming name.
\<close>

theorem suggestCorrectNaming_identity_on_conforming:
  "pattern \<in> {''PascalCase'', ''camelCase'', ''kebab-case''} \<Longrightarrow>
     (matchesPattern nm pattern \<longrightarrow> suggestCorrectNaming nm pattern = nm) \<and>
     (matchesPattern (suggestCorrectNaming nm pattern) pattern \<longrightarrow>
        suggestCorrectNaming (suggestCorrectNaming nm pattern) pattern =
        suggestCorrectNaming nm pattern)"
  using suggest_pascal suggest_camel suggest_kebab by blast

lemma suggest_loginForm: "suggestCorrectNaming ''loginForm'' ''PascalCase'' = ''LoginForm''"
  by code_simp

lemma matches_LoginForm: "matchesPattern ''LoginForm'' ''PascalCase''"
  by code_simp

text \<open>
  \<open>LoginForm\<close> conforms to PascalCase and is its own suggestion; \<open>loginForm\<close> does
  not, its suggestion is \<open>LoginForm\<close>, and suggesting again changes nothing.
\<close>

theorem suggestCorrectNaming_identity_on_conforming_witness:
  "matchesPattern ''LoginForm'' ''PascalCase'' \<and>
   suggestCorrectNaming ''LoginForm'' ''PascalCase'' = ''LoginForm'' \<and>
   suggestCorrectNaming ''loginForm'' ''PascalCase'' = ''LoginForm'' \<and>
   suggestCorrectNaming (suggestCorrectNaming ''loginForm'' ''PascalCase'') ''PascalCase'' =
     suggestCorrectNaming ''loginForm'' ''PascalCase''"
  using suggestCorrectNaming_identity_on_conforming [of "''PascalCase''" "''LoginForm''"]
    suggestCorrectNaming_identity_on_conforming [of "''PascalCase''" "''loginForm''"]
    suggest_loginForm matches_LoginForm
  by simp

section \<open>C2: the inferencer is a two-way majority vote\<close>

lemma testUpperLower_iff:
  "testUpperLower f \<longleftrightarrow> (\<exists>i. Suc i < length f \<and> isUpper (f ! i) \<and> isLower (f ! Suc i))"
proof (induction f rule: testUpperLower.induct)
  case (1 a b cs)
  show ?case
  proof
    assume "testUpperLower (a # b # cs)"
    then consider "isUpper a \<and> isLower b" | "testUpperLower (b # cs)" by auto
    then show "\<exists>i. Suc i < length (a # b # cs) \<and> isUpper ((a # b # cs) ! i) \<and>
        isLower ((a # b # cs) ! Suc i)"
    proof cases
      case 1
      then have "Suc 0 < length (a # b # cs) \<and> isUpper ((a # b # cs) ! 0) \<and>
        isLower ((a # b # cs) ! Suc 0)" by simp
      then show ?thesis by blast
    next
      case 2
      with "1.IH" obtain i where "Suc i < length (b # cs)" "isUpper ((b # cs) ! i)"
        "isLower ((b # cs) ! Suc i)" by blast
      then have "Suc (Suc i) < length (a # b # cs) \<and> isUpper ((a # b # cs) ! Suc i) \<and>
        isLower ((a # b # cs) ! Suc (Suc i))" by simp
      then show ?thesis by blast
    qed
  next
    assume "\<exists>i. Suc i < length (a # b # cs) \<and> isUpper ((a # b # cs) ! i) \<and>
        isLower ((a # b # cs) ! Suc i)"
    then obtain i where i: "Suc i < length (a # b # cs)" "isUpper ((a # b # cs) ! i)"
        "isLower ((a # b # cs) ! Suc i)" by blast
    show "testUpperLower (a # b # cs)"
    proof (cases i)
      case 0
      with i show ?thesis by simp
    next
      case (Suc k)
      with i have "Suc k < length (b # cs) \<and> isUpper ((b # cs) ! k) \<and> isLower ((b # cs) ! Suc k)"
        by simp
      with "1.IH" have "testUpperLower (b # cs)" by blast
      then show ?thesis by simp
    qed
  qed
qed simp_all

lemma no_upper_no_test: "list_all (\<lambda>c. \<not> isUpper c) f \<Longrightarrow> \<not> testUpperLower f"
  by (auto simp: testUpperLower_iff list_all_length)

lemma kebab_no_upper:
  assumes "matchesPattern f ''kebab-case''"
  shows "list_all (\<lambda>c. \<not> isUpper c) f"
proof -
  from assms obtain c cs where f: "f = c # cs" and c: "isLower c"
    and cs: "list_all (\<lambda>d. isLower d \<or> isDigit d \<or> d = CHR ''-'') cs"
    by (cases f) (auto simp: matchesPattern_def)
  from c have cu: "\<not> isUpper c" using upper_not_lower by blast
  from cs have "list_all (\<lambda>d. \<not> isUpper d) cs"
    by (auto simp: list_all_iff dest: upper_not_lower digit_not_upper simp: hyphen_not_upper)
  with cu f show ?thesis by simp
qed

lemma detectNamingPattern_eq:
  "detectNamingPattern files =
     (if 2 * length (filter testUpperLower files) > length files then ''PascalCase''
      else ''camelCase'')"
proof -
  have "(real (length (filter testUpperLower files)) > real (length files) / 2) =
        (2 * length (filter testUpperLower files) > length files)"
    by (simp add: field_simps) linarith
  then show ?thesis by (simp add: detectNamingPattern_def Let_def)
qed

lemma detect_kebab_only:
  assumes "\<forall>f \<in> set files. matchesPattern f ''kebab-case''"
  shows "detectNamingPattern files = ''camelCase''"
proof -
  from assms have "\<forall>f \<in> set files. \<not> testUpperLower f"
    by (auto dest: kebab_no_upper no_upper_no_test)
  then have "filter testUpperLower files = []" by (simp add: filter_empty_conv)
  then show ?thesis by (simp add: detectNamingPattern_eq)
qed

text \<open>
  Claim C2, as amended. \<open>detectNamingPattern\<close> counts the names in which an
  upper-case letter is followed at once by a lower-case letter, and returns
  PascalCase when they are more than half of the names, and camelCase otherwise.
  It never returns kebab-case: a list of kebab-case names yields camelCase.
\<close>

theorem detectNamingPattern_two_way_majority:
  "detectNamingPattern files =
     (if 2 * length (filter testUpperLower files) > length files then ''PascalCase''
      else ''camelCase'') \<and>
   (testUpperLower f \<longleftrightarrow>
      (\<exists>i. Suc i < length f \<and> isUpper (f ! i) \<and> isLower (f ! Suc i))) \<and>
   detectNamingPattern files \<noteq> ''kebab-case'' \<and>
   ((\<forall>f \<in> set files. matchesPattern f ''kebab-case'') \<longrightarrow>
      detectNamingPattern files = ''camelCase'')"
proof (intro conjI impI)
  show "detectNamingPattern files =
     (if 2 * length (filter testUpperLower files) > length files then ''PascalCase''
      else ''camelCase'')" by (rule detectNamingPattern_eq)
  show "testUpperLower f \<longleftrightarrow>
      (\<exists>i. Suc i < length f \<and> isUpper (f ! i) \<and> isLower (f ! Suc i))"
    by (rule testUpperLower_iff)
  show "detectNamingPattern files \<noteq> ''kebab-case''"
    by (simp add: detectNamingPattern_eq)
  assume "\<forall>f \<in> set files. matchesPattern f ''kebab-case''"
  then show "detectNamingPattern files = ''camelCase''" by (rule detect_kebab_only)
qed

lemma kebab_examples:
  "matchesPattern ''foo-bar'' ''kebab-case''" "matchesPattern ''baz-qux'' ''kebab-case''"
  "\<not> matchesPattern ''foo-bar'' ''PascalCase''" "\<not> matchesPattern ''baz-qux'' ''PascalCase''"
  "\<not> matchesPattern ''foo-bar'' ''camelCase''" "\<not> matchesPattern ''baz-qux'' ''camelCase''"
  by code_simp+

text \<open>Two kebab-case names: the answer is camelCase.\<close>

theorem detectNamingPattern_two_way_majority_witness:
  "matchesPattern ''foo-bar'' ''kebab-case'' \<and> matchesPattern ''baz-qux'' ''kebab-case'' \<and>
   detectNamingPattern [''foo-bar'', ''baz-qux''] = ''camelCase''"
proof -
  have hyp: "\<forall>f \<in> set [''foo-bar'', ''baz-qux'']. matchesPattern f ''kebab-case''"
    by (simp add: kebab_examples)
  from detectNamingPattern_two_way_majority [of "[''foo-bar'', ''baz-qux'']" "''foo-bar''"] hyp
  have "detectNamingPattern [''foo-bar'', ''baz-qux''] = ''camelCase''" by blast
  with kebab_examples show ?thesis by blast
qed

text \<open>
  Claim C2 as the specification states it fails: on two kebab-case names the vote
  over the three conventions gives kebab-case, and the code answers camelCase.
\<close>

theorem detectNamingPattern_never_kebab:
  "spec_inferConvention [''foo-bar'', ''baz-qux''] = ''kebab-case'' \<and>
   detectNamingPattern [''foo-bar'', ''baz-qux''] = ''camelCase''"
proof -
  have "spec_inferConvention [''foo-bar'', ''baz-qux''] = ''kebab-case''"
    by (simp add: spec_inferConvention_def matchCount_def kebab_examples)
  moreover have "detectNamingPattern [''foo-bar'', ''baz-qux''] = ''camelCase''"
    by (rule detect_kebab_only) (simp add: kebab_examples)
  ultimately show ?thesis by simp
qed

section \<open>C6: the examples of the inferencer\<close>

lemma detectPatterns_components:
  assumes "findFiles exec ''*.tsx'' (Some ''components'') = Inr files"
  shows "components (detectPatterns exec) =
     (if files = [] then ''PascalCase'' else detectNamingPattern files)"
  using assms
  by (simp add: detectPatterns_def defaultPatterns_def Let_def split: sum.splits)

text \<open>
  Claim C6, as amended. \<open>detectNamingPattern\<close> returns PascalCase for \<open>Foo.tsx\<close>,
  \<open>Bar.tsx\<close>, \<open>Baz.tsx\<close> and camelCase for \<open>foo.ts\<close>, \<open>barBaz.ts\<close>. On the empty
  list it returns camelCase, which is no error and is not the default of the
  components, PascalCase. The default is the business of \<open>detectPatterns\<close>: with
  no component file it keeps PascalCase, and otherwise it records what
  \<open>detectNamingPattern\<close> returns for the component files.
\<close>

theorem inferencer_examples:
  "detectNamingPattern [''Foo.tsx'', ''Bar.tsx'', ''Baz.tsx''] = ''PascalCase'' \<and>
   detectNamingPattern [''foo.ts'', ''barBaz.ts''] = ''camelCase'' \<and>
   detectNamingPattern [] = ''camelCase'' \<and>
   components defaultPatterns = ''PascalCase'' \<and>
   (findFiles exec ''*.tsx'' (Some ''components'') = Inr files \<longrightarrow>
      components (detectPatterns exec) =
        (if files = [] then components defaultPatterns else detectNamingPattern files))"
proof (intro conjI impI)
  show "detectNamingPattern [''Foo.tsx'', ''Bar.tsx'', ''Baz.tsx''] = ''PascalCase''"
    by (simp add: detectNamingPattern_def isUpper_def isLower_def)
  show "detectNamingPattern [''foo.ts'', ''barBaz.ts''] = ''camelCase''"
    by (simp add: detectNamingPattern_def isUpper_def isLower_def)
  show "detectNamingPattern [] = ''camelCase''"
    by (simp add: detectNamingPattern_def)
  show "components defaultPatterns = ''PascalCase''"
    by (simp add: defaultPatterns_def)
  assume "findFiles exec ''*.tsx'' (Some ''components'') = Inr files"
  then show "components (detectPatterns exec) =
        (if files = [] then components defaultPatterns else detectNamingPattern files)"
    by (simp add: detectPatterns_components defaultPatterns_def)
qed

lemma findFiles_button:
  "findFiles buttonExec ''*.tsx'' (Some ''components'') =
     Inr [''./src/components/button.tsx'', ''./src/components/navBar.tsx'',
          ''./src/components/card.tsx'']"
  by (simp add: findFiles_def buttonExec_def Let_def Boolean_def trim_def isSpace_def)

lemma detect_button:
  "detectNamingPattern [''./src/components/button.tsx'', ''./src/components/navBar.tsx'',
          ''./src/components/card.tsx''] = ''camelCase''"
  by (simp add: detectNamingPattern_def isUpper_def isLower_def)

text \<open>
  On \<open>missingRoot\<close> no component file is found and the default stands; on
  \<open>buttonExec\<close> the three component files give camelCase.
\<close>

theorem inferencer_examples_witness:
  "findFiles missingRoot ''*.tsx'' (Some ''components'') = Inr [] \<and>
   components (detectPatterns missingRoot) = ''PascalCase'' \<and>
   findFiles buttonExec ''*.tsx'' (Some ''components'') =
     Inr [''./src/components/button.tsx'', ''./src/components/navBar.tsx'',
          ''./src/components/card.tsx''] \<and>
   components (detectPatterns buttonExec) = ''camelCase''"
proof -
  have e: "findFiles missingRoot ''*.tsx'' (Some ''components'') = Inr []"
    by (rule findFiles_missingRoot)
  from inferencer_examples [of missingRoot "[]"] e
  have a: "components (detectPatterns missingRoot) = ''PascalCase''" by simp
  from inferencer_examples [of buttonExec "[''./src/components/button.tsx'',
      ''./src/components/navBar.tsx'', ''./src/components/card.tsx'']"] findFiles_button
  have "components (detectPatterns buttonExec) =
      detectNamingPattern [''./src/components/button.tsx'', ''./src/components/navBar.tsx'',
          ''./src/components/card.tsx'']" by simp
  then have b: "components (detectPatterns buttonExec) = ''camelCase''"
    by (simp only: detect_button)
  from e a findFiles_button b show ?thesis by blast
qed

text \<open>
  Claim C6 as the specification states it fails: for the empty list the function
  of the two examples returns camelCase, and the configured default is PascalCase.
\<close>

theorem inferencer_empty_list_is_not_the_default:
  "detectNamingPattern [] = ''camelCase'' \<and>
   components defaultPatterns = ''PascalCase'' \<and>
   detectNamingPattern [] \<noteq> components defaultPatterns"
  by (simp add: detectNamingPattern_def defaultPatterns_def)

section \<open>C9: the result of \<open>validateNaming\<close>\<close>

lemma validateNaming_issues:
  "issues (validateNaming pm nm ft) =
     (case patternOf (patterns pm) ft of
        None \<Rightarrow> []
      | Some pattern \<Rightarrow>
          if Boolean pattern \<and> \<not> matchesPattern nm pattern
          then [''Name doesn't match '' @ pattern @ '' pattern''] else []) @
     (if findSimilarFeatures pm nm \<noteq> [] then [''Similar feature already exists''] else [])"
  by (simp add: validateNaming_def Let_def split: option.splits)

lemma validateNaming_suggestions:
  "suggestions (validateNaming pm nm ft) =
     (case patternOf (patterns pm) ft of
        None \<Rightarrow> []
      | Some pattern \<Rightarrow>
          if Boolean pattern \<and> \<not> matchesPattern nm pattern
          then [''Consider: '' @ suggestCorrectNaming nm pattern] else []) @
     (if findSimilarFeatures pm nm \<noteq> []
      then [''Existing: '' @ join '', '' (findSimilarFeatures pm nm)] else [])"
  by (simp add: validateNaming_def Let_def split: option.splits)

lemma validateNaming_isValid:
  "isValid (validateNaming pm nm ft) = (issues (validateNaming pm nm ft) = [])"
  by (simp add: validateNaming_def Let_def split: option.splits prod.splits)

lemma validateNaming_lengths:
  "length (suggestions (validateNaming pm nm ft)) = length (issues (validateNaming pm nm ft))"
  by (simp add: validateNaming_issues validateNaming_suggestions split: option.splits)

lemma validateNaming_naming_issue:
  assumes "''Name doesn't match '' @ pattern @ '' pattern'' \<in> set (issues (validateNaming pm nm ft))"
  shows "patternOf (patterns pm) ft = Some pattern \<and> \<not> matchesPattern nm pattern \<and>
         issues (validateNaming pm nm ft) ! 0 = ''Name doesn't match '' @ pattern @ '' pattern'' \<and>
         suggestions (validateNaming pm nm ft) ! 0 = ''Consider: '' @ suggestCorrectNaming nm pattern"
  using assms
  by (auto simp: validateNaming_issues validateNaming_suggestions split: option.splits if_splits)

text \<open>
  Claim C9. In the result of \<open>validateNaming\<close> the flag \<open>isValid\<close> is true exactly
  when the list of issues is empty, and there are as many suggestions as issues.
  When the issue of the naming pattern is recorded, it is the first issue, the
  name does not match the pattern of the file type, and the first suggestion is
  the corrected name for that pattern.
\<close>

theorem validateNaming_valid_iff_no_issue:
  "(isValid (validateNaming pm nm ft) \<longleftrightarrow> issues (validateNaming pm nm ft) = []) \<and>
   length (suggestions (validateNaming pm nm ft)) = length (issues (validateNaming pm nm ft)) \<and>
   (''Name doesn't match '' @ pattern @ '' pattern'' \<in> set (issues (validateNaming pm nm ft)) \<longrightarrow>
      patternOf (patterns pm) ft = Some pattern \<and> \<not> matchesPattern nm pattern \<and>
      issues (validateNaming pm nm ft) ! 0 = ''Name doesn't match '' @ pattern @ '' pattern'' \<and>
      suggestions (validateNaming pm nm ft) ! 0 = ''Consider: '' @ suggestCorrectNaming nm pattern)"
  using validateNaming_isValid validateNaming_lengths validateNaming_naming_issue by blast

lemma loginForm_issues:
  "issues (validateNaming (analyzeProject loginFormExec False) ''loginForm'' ''components'') =
     [''Name doesn't match PascalCase pattern'', ''Similar feature already exists'']"
  by code_simp

lemma loginForm_suggestions:
  "suggestions (validateNaming (analyzeProject loginFormExec False) ''loginForm'' ''components'') =
     [''Consider: LoginForm'', ''Existing: LoginForm'']"
  by code_simp

lemma empty_tree_valid:
  "validateNaming (analyzeProject missingRoot False) ''LoginForm'' ''component'' =
     \<lparr>isValid = True, issues = [], suggestions = []\<rparr>"
  by code_simp

text \<open>
  The name \<open>loginForm\<close> for a file of type \<open>components\<close>, in a tree that holds
  \<open>src/components/LoginForm.tsx\<close>: both issues are recorded, each with its
  suggestion.
\<close>

theorem validateNaming_valid_iff_no_issue_witness:
  "issues (validateNaming (analyzeProject loginFormExec False) ''loginForm'' ''components'') =
     [''Name doesn't match PascalCase pattern'', ''Similar feature already exists''] \<and>
   suggestions (validateNaming (analyzeProject loginFormExec False) ''loginForm'' ''components'') =
     [''Consider: LoginForm'', ''Existing: LoginForm''] \<and>
   \<not> isValid (validateNaming (analyzeProject loginFormExec False) ''loginForm'' ''components'') \<and>
   suggestions (validateNaming (analyzeProject loginFormExec False) ''loginForm'' ''components'') ! 0 =
     ''Consider: '' @ suggestCorrectNaming ''loginForm'' ''PascalCase''"
proof -
  let ?r = "validateNaming (analyzeProject loginFormExec False) ''loginForm'' ''components''"
  note inst = validateNaming_valid_iff_no_issue
    [of "analyzeProject loginFormExec False" "''loginForm''" "''components''" "''PascalCase''"]
  have mem: "''Name doesn't match '' @ ''PascalCase'' @ '' pattern'' \<in> set (issues ?r)"
    by (simp add: loginForm_issues)
  from inst mem have s0: "suggestions ?r ! 0 =
     ''Consider: '' @ suggestCorrectNaming ''loginForm'' ''PascalCase''" by blast
  from inst have "isValid ?r \<longleftrightarrow> issues ?r = []" by blast
  then have nv: "\<not> isValid ?r" by (simp add: loginForm_issues)
  from s0 nv loginForm_issues loginForm_suggestions show ?thesis by blast
qed

section \<open>The TDD protocol: lemmas\<close>

lemma ensure_preserves:
  "fs p \<noteq> None \<Longrightarrow> ensureDirectoryExists fs d p = fs p"
  by (auto simp: ensureDirectoryExists_def existsSync_def mkdirSync_def)

lemma write_on_file:
  "fs p = Some (File a) \<Longrightarrow> writeFileSync fs p c = Inr (fs(p \<mapsto> File c))"
  by (simp add: writeFileSync_def)

lemma write_Inr:
  "writeFileSync fs p c = Inr fs' \<Longrightarrow> fs' = fs(p \<mapsto> File c)"
  by (auto simp: writeFileSync_def split: option.splits entry.splits)

lemma createFailingTest_on_file:
  assumes "fs (getTestPath P this spec) = Some (File a)"
  shows "createFailingTest P this spec fs =
     Inr ((ensureDirectoryExists fs (dirname P (getTestPath P this spec)))
            (getTestPath P this spec \<mapsto> File (generateTestContent spec)))"
proof -
  from assms have "ensureDirectoryExists fs (dirname P (getTestPath P this spec))
      (getTestPath P this spec) = Some (File a)"
    by (simp add: ensure_preserves)
  then show ?thesis by (simp add: createFailingTest_def Let_def write_on_file)
qed

lemma createFailingTest_Inr:
  assumes "createFailingTest P this spec fs = Inr fs'"
  shows "fs' = (ensureDirectoryExists fs (dirname P (getTestPath P this spec)))
            (getTestPath P this spec \<mapsto> File (generateTestContent spec))"
  using assms by (auto simp: createFailingTest_def Let_def dest: write_Inr)

lemma createMinimalImplementation_on_file:
  assumes "fs (getImplementationPath P this spec) = Some (File a)"
  shows "createMinimalImplementation P this spec fs =
     Inr ((ensureDirectoryExists fs (dirname P (getImplementationPath P this spec)))
            (getImplementationPath P this spec \<mapsto> File (generateMinimalImplementation spec)))"
proof -
  from assms have "ensureDirectoryExists fs (dirname P (getImplementationPath P this spec))
      (getImplementationPath P this spec) = Some (File a)"
    by (simp add: ensure_preserves)
  then show ?thesis by (simp add: createMinimalImplementation_def Let_def write_on_file)
qed

lemma createMinimalImplementation_Inr:
  assumes "createMinimalImplementation P this spec fs = Inr fs'"
  shows "fs' = (ensureDirectoryExists fs (dirname P (getImplementationPath P this spec)))
            (getImplementationPath P this spec \<mapsto> File (generateMinimalImplementation spec))"
  using assms by (auto simp: createMinimalImplementation_def Let_def dest: write_Inr)

lemma addSelfHealingMechanisms_on_file:
  assumes "fs (getImplementationPath P this spec) = Some (File a)"
  shows "addSelfHealingMechanisms P this spec fs =
     Inr (fs(getImplementationPath P this spec \<mapsto> File (generateSelfHealingImplementation spec)))"
  using assms by (simp add: addSelfHealingMechanisms_def Let_def write_on_file)

lemma addSelfHealingMechanisms_Inr:
  assumes "addSelfHealingMechanisms P this spec fs = Inr fs'"
  shows "fs' = fs(getImplementationPath P this spec \<mapsto> File (generateSelfHealingImplementation spec))"
  using assms by (auto simp: addSelfHealingMechanisms_def Let_def dest: write_Inr)

lemma isFile_iff: "isFile fs p \<longleftrightarrow> (\<exists>c. fs p = Some (File c))"
  by (auto simp: isFile_def split: option.splits entry.splits)

lemma ensure_isFile: "isFile fs p \<Longrightarrow> isFile (ensureDirectoryExists fs d) p"
  by (auto simp: isFile_iff ensure_preserves)

lemma createFeature_steps:
  assumes nd: "\<not> isDuplicate (preventDuplication (intelligence this) (name spec))"
    and v: "isValid (validateNaming (intelligence this) (name spec) (type spec))"
    and s1: "createFailingTest P this spec fs = Inr fs1"
    and s2: "createMinimalImplementation P this spec fs1 = Inr fs2"
    and s3: "addSelfHealingMechanisms P this spec fs2 = Inr fs3"
  shows "createFeature P this spec fs = Inr (Created, fs3)"
  using assms by (simp add: createFeature_def Let_def)

lemma createFeature_Created:
  assumes "createFeature P this spec fs = Inr (Created, fs')"
  shows "\<not> isDuplicate (preventDuplication (intelligence this) (name spec)) \<and>
         isValid (validateNaming (intelligence this) (name spec) (type spec)) \<and>
         (\<exists>fs1 fs2. createFailingTest P this spec fs = Inr fs1 \<and>
            createMinimalImplementation P this spec fs1 = Inr fs2 \<and>
            addSelfHealingMechanisms P this spec fs2 = Inr fs')"
  using assms by (auto simp: createFeature_def Let_def split: if_splits sum.splits)

lemma createFeature_on_files:
  assumes nd: "\<not> isDuplicate (preventDuplication (intelligence this) (name spec))"
    and v: "isValid (validateNaming (intelligence this) (name spec) (type spec))"
    and ft: "isFile fs (getTestPath P this spec)"
    and fi: "isFile fs (getImplementationPath P this spec)"
  shows "\<exists>fs'. createFeature P this spec fs = Inr (Created, fs') \<and>
           fs' (getImplementationPath P this spec) =
             Some (File (generateSelfHealingImplementation spec)) \<and>
           (getTestPath P this spec \<noteq> getImplementationPath P this spec \<longrightarrow>
              fs' (getTestPath P this spec) = Some (File (generateTestContent spec)))"
proof -
  let ?tp = "getTestPath P this spec" and ?ip = "getImplementationPath P this spec"
  let ?fs1 = "(ensureDirectoryExists fs (dirname P ?tp))(?tp \<mapsto> File (generateTestContent spec))"
  let ?fs2 = "(ensureDirectoryExists ?fs1 (dirname P ?ip))(?ip \<mapsto> File (generateMinimalImplementation spec))"
  let ?fs3 = "?fs2(?ip \<mapsto> File (generateSelfHealingImplementation spec))"
  from ft obtain a where "fs ?tp = Some (File a)" by (auto simp: isFile_iff)
  then have s1: "createFailingTest P this spec fs = Inr ?fs1" by (rule createFailingTest_on_file)
  from fi have "isFile (ensureDirectoryExists fs (dirname P ?tp)) ?ip" by (rule ensure_isFile)
  then have "isFile ?fs1 ?ip" by (auto simp: isFile_iff)
  then obtain b where "?fs1 ?ip = Some (File b)" by (auto simp: isFile_iff)
  then have s2: "createMinimalImplementation P this spec ?fs1 = Inr ?fs2"
    by (rule createMinimalImplementation_on_file)
  have "?fs2 ?ip = Some (File (generateMinimalImplementation spec))" by simp
  then have s3: "addSelfHealingMechanisms P this spec ?fs2 = Inr ?fs3"
    by (rule addSelfHealingMechanisms_on_file)
  have c: "createFeature P this spec fs = Inr (Created, ?fs3)"
    by (rule createFeature_steps [OF nd v s1 s2 s3])
  have i: "?fs3 ?ip = Some (File (generateSelfHealingImplementation spec))" by simp
  have t: "?tp \<noteq> ?ip \<longrightarrow> ?fs3 ?tp = Some (File (generateTestContent spec))"
  proof
    assume ne: "?tp \<noteq> ?ip"
    have "?fs1 ?tp \<noteq> None" by simp
    then have "ensureDirectoryExists ?fs1 (dirname P ?ip) ?tp = ?fs1 ?tp" by (rule ensure_preserves)
    with ne show "?fs3 ?tp = Some (File (generateTestContent spec))" by simp
  qed
  from c i t show ?thesis by blast
qed

lemma createFeature_Created_files:
  assumes "createFeature P this spec fs = Inr (Created, fs')"
  shows "isFile fs' (getTestPath P this spec) \<and> isFile fs' (getImplementationPath P this spec) \<and>
         fs' (getImplementationPath P this spec) =
             Some (File (generateSelfHealingImplementation spec)) \<and>
         (getTestPath P this spec \<noteq> getImplementationPath P this spec \<longrightarrow>
              fs' (getTestPath P this spec) = Some (File (generateTestContent spec)))"
proof -
  let ?tp = "getTestPath P this spec" and ?ip = "getImplementationPath P this spec"
  from createFeature_Created [OF assms] obtain fs1 fs2 where
    s1: "createFailingTest P this spec fs = Inr fs1" and
    s2: "createMinimalImplementation P this spec fs1 = Inr fs2" and
    s3: "addSelfHealingMechanisms P this spec fs2 = Inr fs'" by blast
  from createFailingTest_Inr [OF s1] have f1: "fs1 ?tp = Some (File (generateTestContent spec))"
    by simp
  then have "fs1 ?tp \<noteq> None" by simp
  then have p: "ensureDirectoryExists fs1 (dirname P ?ip) ?tp = fs1 ?tp" by (rule ensure_preserves)
  from createMinimalImplementation_Inr [OF s2] p f1
  have f2: "fs2 ?tp = (if ?tp = ?ip then Some (File (generateMinimalImplementation spec))
                      else Some (File (generateTestContent spec)))"
    by simp
  from addSelfHealingMechanisms_Inr [OF s3] f2
  have f3: "fs' ?ip = Some (File (generateSelfHealingImplementation spec))"
    and f4: "fs' ?tp = (if ?tp = ?ip then Some (File (generateSelfHealingImplementation spec))
                      else Some (File (generateTestContent spec)))"
    by simp_all
  from f3 f4 show ?thesis by (auto simp: isFile_iff)
qed



lemma createFeature_refusal_only_by_checks:
  "(createFeature P this spec fs = Inr (DuplicateDetected, fs') \<longrightarrow>
      isDuplicate (preventDuplication (intelligence this) (name spec)) \<and> fs' = fs) \<and>
   (createFeature P this spec fs = Inr (NamingIssues, fs') \<longrightarrow>
      \<not> isDuplicate (preventDuplication (intelligence this) (name spec)) \<and>
      \<not> isValid (validateNaming (intelligence this) (name spec) (type spec)) \<and> fs' = fs)"
  by (auto simp: createFeature_def Let_def split: if_splits sum.splits)






section \<open>C3: the template emitter writes over existing files\<close>

lemma exampleProtocol_eq:
  "exampleProtocol =
     \<lparr>intelligence =
        \<lparr>structure = \<lparr>canonicalLocations = Map.empty, forbiddenLocations = [],
                        duplicateStructures = []\<rparr>,
         patterns = defaultPatterns,
         existingFeatures = [],
         testFramework = \<lparr>TestingFramework.name = ''unknown'', testPattern = ''*.test.*'',
                           testLocation = ''__tests__''\<rparr>\<rparr>,
      config = \<lparr>testFramework = ''jest'', testLocation = ''__tests__'',
                componentLocation = ''src/components'', utilityLocation = ''src/lib''\<rparr>\<rparr>"
  by (simp add: exampleProtocol_def newTDDProtocol_def analyzeProject_def mapStructure_missingRoot
      detectPatterns_def findFiles_missingRoot catalogFeatures_def detectTestFramework_def
      findDirectories_Inr scanned_missingRoot detectTDDConfig_def js_or_default_def Boolean_def
      Let_def)

lemma example_not_duplicate:
  "\<not> isDuplicate (preventDuplication (intelligence exampleProtocol) nm)"
  by (simp add: exampleProtocol_eq preventDuplication_def findSimilarFeatures_def)

lemma example_valid_component:
  "isValid (validateNaming (intelligence exampleProtocol) nm ''component'')"
  by (simp add: exampleProtocol_eq validateNaming_def findSimilarFeatures_def patternOf_def)


lemma example_paths:
  "getTestPath simplePath exampleProtocol exampleSpec = ''__tests__/components/UserProfile.test.tsx''"
  "getImplementationPath simplePath exampleProtocol exampleSpec = ''src/components/UserProfile.tsx''"
  "getTestPath simplePath exampleProtocol widgetSpec = ''__tests__/widgets/UserProfile.test.tsx''"
  "getImplementationPath simplePath exampleProtocol widgetSpec = ''src/UserProfile.ts''"
  by (simp_all add: getTestPath_def getImplementationPath_def simplePath_def exampleProtocol_eq
      exampleSpec_def widgetSpec_def)

lemma example_dirnames:
  "dirname simplePath ''__tests__/components/UserProfile.test.tsx'' = ''__tests__/components''"
  "dirname simplePath ''src/components/UserProfile.tsx'' = ''src/components''"
  "dirname simplePath ''__tests__/widgets/UserProfile.test.tsx'' = ''__tests__/widgets''"
  "dirname simplePath ''src/UserProfile.ts'' = ''src''"
  by (simp_all add: simplePath_def)


lemma createFeature_refused:
  "(isDuplicate (preventDuplication (intelligence this) (name spec)) \<longrightarrow>
      createFeature P this spec fs = Inr (DuplicateDetected, fs)) \<and>
   (\<not> isDuplicate (preventDuplication (intelligence this) (name spec)) \<and>
    \<not> isValid (validateNaming (intelligence this) (name spec) (type spec)) \<longrightarrow>
      createFeature P this spec fs = Inr (NamingIssues, fs))"
  by (simp add: createFeature_def Let_def)

lemma createFeature_twice:
  assumes "createFeature P this spec fs = Inr (Created, fs1)"
  shows "\<exists>fs2. createFeature P this spec fs1 = Inr (Created, fs2) \<and>
           fs2 (getImplementationPath P this spec) =
             Some (File (generateSelfHealingImplementation spec)) \<and>
           (getTestPath P this spec \<noteq> getImplementationPath P this spec \<longrightarrow>
              fs2 (getTestPath P this spec) = Some (File (generateTestContent spec)))"
proof -
  from createFeature_Created [OF assms]
  have nd: "\<not> isDuplicate (preventDuplication (intelligence this) (name spec))"
    and v: "isValid (validateNaming (intelligence this) (name spec) (type spec))" by blast+
  from createFeature_Created_files [OF assms]
  have ft: "isFile fs1 (getTestPath P this spec)"
    and fi: "isFile fs1 (getImplementationPath P this spec)" by blast+
  from nd v ft fi show ?thesis by (rule createFeature_on_files)
qed

text \<open>
  Claim C3, as amended. The template emitter writes without looking at the
  target: \<open>createFailingTest\<close>, \<open>createMinimalImplementation\<close> and
  \<open>addSelfHealingMechanisms\<close> replace the content of a file that exists at the
  target path, and report no error; there is no overwrite flag. A call of
  \<open>createFeature\<close> that created the files can be repeated on the same object: the
  second call creates them again. \<open>createFeature\<close> refuses a feature only by
  the duplicate check and the naming check against the project map of the object,
  and then returns normally, the file system unchanged.
\<close>

theorem template_emitter_overwrites:
  "(fs (getTestPath P this spec) = Some (File old) \<longrightarrow>
      (\<exists>fs'. createFailingTest P this spec fs = Inr fs' \<and>
         fs' (getTestPath P this spec) = Some (File (generateTestContent spec)))) \<and>
   (fs (getImplementationPath P this spec) = Some (File old) \<longrightarrow>
      (\<exists>fs'. createMinimalImplementation P this spec fs = Inr fs' \<and>
         fs' (getImplementationPath P this spec) =
           Some (File (generateMinimalImplementation spec))) \<and>
      (\<exists>fs'. addSelfHealingMechanisms P this spec fs = Inr fs' \<and>
         fs' (getImplementationPath P this spec) =
           Some (File (generateSelfHealingImplementation spec)))) \<and>
   (createFeature P this spec fs = Inr (Created, fs1) \<longrightarrow>
      (\<exists>fs2. createFeature P this spec fs1 = Inr (Created, fs2) \<and>
         fs2 (getImplementationPath P this spec) =
           Some (File (generateSelfHealingImplementation spec)) \<and>
         (getTestPath P this spec \<noteq> getImplementationPath P this spec \<longrightarrow>
            fs2 (getTestPath P this spec) = Some (File (generateTestContent spec))))) \<and>
   (isDuplicate (preventDuplication (intelligence this) (name spec)) \<longrightarrow>
      createFeature P this spec fs = Inr (DuplicateDetected, fs)) \<and>
   (\<not> isDuplicate (preventDuplication (intelligence this) (name spec)) \<and>
    \<not> isValid (validateNaming (intelligence this) (name spec) (type spec)) \<longrightarrow>
      createFeature P this spec fs = Inr (NamingIssues, fs)) \<and>
   (createFeature P this spec fs = Inr (DuplicateDetected, fs1) \<longrightarrow>
      isDuplicate (preventDuplication (intelligence this) (name spec)) \<and> fs1 = fs) \<and>
   (createFeature P this spec fs = Inr (NamingIssues, fs1) \<longrightarrow>
      \<not> isDuplicate (preventDuplication (intelligence this) (name spec)) \<and>
      \<not> isValid (validateNaming (intelligence this) (name spec) (type spec)) \<and> fs1 = fs)"
proof (intro conjI impI)
  assume "fs (getTestPath P this spec) = Some (File old)"
  then show "\<exists>fs'. createFailingTest P this spec fs = Inr fs' \<and>
         fs' (getTestPath P this spec) = Some (File (generateTestContent spec))"
    by (simp add: createFailingTest_on_file)
next
  assume "fs (getImplementationPath P this spec) = Some (File old)"
  then show "\<exists>fs'. createMinimalImplementation P this spec fs = Inr fs' \<and>
         fs' (getImplementationPath P this spec) =
           Some (File (generateMinimalImplementation spec))"
    by (simp add: createMinimalImplementation_on_file)
next
  assume "fs (getImplementationPath P this spec) = Some (File old)"
  then show "\<exists>fs'. addSelfHealingMechanisms P this spec fs = Inr fs' \<and>
         fs' (getImplementationPath P this spec) =
           Some (File (generateSelfHealingImplementation spec))"
    by (simp add: addSelfHealingMechanisms_on_file)
next
  assume "createFeature P this spec fs = Inr (Created, fs1)"
  then show "\<exists>fs2. createFeature P this spec fs1 = Inr (Created, fs2) \<and>
         fs2 (getImplementationPath P this spec) =
           Some (File (generateSelfHealingImplementation spec)) \<and>
         (getTestPath P this spec \<noteq> getImplementationPath P this spec \<longrightarrow>
            fs2 (getTestPath P this spec) = Some (File (generateTestContent spec)))"
    by (rule createFeature_twice)
next
  assume "isDuplicate (preventDuplication (intelligence this) (name spec))"
  then show "createFeature P this spec fs = Inr (DuplicateDetected, fs)"
    using createFeature_refused by blast
next
  assume "\<not> isDuplicate (preventDuplication (intelligence this) (name spec)) \<and>
    \<not> isValid (validateNaming (intelligence this) (name spec) (type spec))"
  then show "createFeature P this spec fs = Inr (NamingIssues, fs)"
    using createFeature_refused by blast
next
  assume "createFeature P this spec fs = Inr (DuplicateDetected, fs1)"
  with createFeature_refusal_only_by_checks [of P this spec fs fs1]
  show "isDuplicate (preventDuplication (intelligence this) (name spec))" and "fs1 = fs"
    by blast+
next
  assume "createFeature P this spec fs = Inr (NamingIssues, fs1)"
  with createFeature_refusal_only_by_checks [of P this spec fs fs1]
  show "\<not> isDuplicate (preventDuplication (intelligence this) (name spec))"
    and "\<not> isValid (validateNaming (intelligence this) (name spec) (type spec))"
    and "fs1 = fs"
    by blast+
qed

lemma example_first_run:
  "createFeature simplePath exampleProtocol exampleSpec Map.empty =
     Inr (Created,
       [''__tests__/components'' \<mapsto> Directory,
        ''__tests__/components/UserProfile.test.tsx'' \<mapsto> File (generateTestContent exampleSpec),
        ''src/components'' \<mapsto> Directory,
        ''src/components/UserProfile.tsx'' \<mapsto>
          File (generateSelfHealingImplementation exampleSpec)])"
proof -
  have t: "type exampleSpec = ''component''" and n: "name exampleSpec = ''UserProfile''"
    by (simp_all add: exampleSpec_def)
  show ?thesis
    by (simp add: createFeature_def Let_def example_not_duplicate t example_valid_component
      createFailingTest_def createMinimalImplementation_def addSelfHealingMechanisms_def
      example_paths example_dirnames ensureDirectoryExists_def existsSync_def mkdirSync_def
      writeFileSync_def)
qed

text \<open>
  The feature \<open>UserProfile\<close> created twice by one object, starting from an empty
  file system: the second call succeeds and leaves the generated files.
\<close>

theorem template_emitter_overwrites_witness:
  "createFeature simplePath exampleProtocol exampleSpec Map.empty =
     Inr (Created,
       [''__tests__/components'' \<mapsto> Directory,
        ''__tests__/components/UserProfile.test.tsx'' \<mapsto> File (generateTestContent exampleSpec),
        ''src/components'' \<mapsto> Directory,
        ''src/components/UserProfile.tsx'' \<mapsto>
          File (generateSelfHealingImplementation exampleSpec)]) \<and>
   (\<exists>fs2. createFeature simplePath exampleProtocol exampleSpec
       [''__tests__/components'' \<mapsto> Directory,
        ''__tests__/components/UserProfile.test.tsx'' \<mapsto> File (generateTestContent exampleSpec),
        ''src/components'' \<mapsto> Directory,
        ''src/components/UserProfile.tsx'' \<mapsto>
          File (generateSelfHealingImplementation exampleSpec)] = Inr (Created, fs2) \<and>
      fs2 ''src/components/UserProfile.tsx'' =
        Some (File (generateSelfHealingImplementation exampleSpec)) \<and>
      fs2 ''__tests__/components/UserProfile.test.tsx'' =
        Some (File (generateTestContent exampleSpec)))"
proof -
  note inst = template_emitter_overwrites
    [of Map.empty simplePath exampleProtocol exampleSpec "''old''"
      "[''__tests__/components'' \<mapsto> Directory,
        ''__tests__/components/UserProfile.test.tsx'' \<mapsto> File (generateTestContent exampleSpec),
        ''src/components'' \<mapsto> Directory,
        ''src/components/UserProfile.tsx'' \<mapsto>
          File (generateSelfHealingImplementation exampleSpec)]"]
  from inst example_first_run show ?thesis
    by (simp add: example_paths)
qed

text \<open>
  Claim C3 as the specification states it fails: both target paths of
  \<open>UserProfile\<close> exist in \<open>existingFs\<close>, and \<open>createFeature\<close> succeeds and
  replaces both files.
\<close>

theorem template_emitter_writes_over_existing_files:
  "existsSync existingFs ''__tests__/components/UserProfile.test.tsx'' \<and>
   existsSync existingFs ''src/components/UserProfile.tsx'' \<and>
   getTestPath simplePath exampleProtocol exampleSpec =
     ''__tests__/components/UserProfile.test.tsx'' \<and>
   getImplementationPath simplePath exampleProtocol exampleSpec =
     ''src/components/UserProfile.tsx'' \<and>
   createFeature simplePath exampleProtocol exampleSpec existingFs =
     Inr (Created,
       existingFs
         (''__tests__/components/UserProfile.test.tsx'' \<mapsto> File (generateTestContent exampleSpec),
          ''src/components/UserProfile.tsx'' \<mapsto>
            File (generateSelfHealingImplementation exampleSpec)))"
proof -
  have t: "type exampleSpec = ''component''" and n: "name exampleSpec = ''UserProfile''"
    by (simp_all add: exampleSpec_def)
  have e: "existingFs ''__tests__/components/UserProfile.test.tsx'' = Some (File ''old test'')"
    "existingFs ''src/components/UserProfile.tsx'' = Some (File ''old implementation'')"
    "existingFs ''__tests__/components'' = Some Directory"
    "existingFs ''src/components'' = Some Directory"
    by (simp_all add: existingFs_def)
  have c: "createFeature simplePath exampleProtocol exampleSpec existingFs =
     Inr (Created,
       existingFs
         (''__tests__/components/UserProfile.test.tsx'' \<mapsto> File (generateTestContent exampleSpec),
          ''src/components/UserProfile.tsx'' \<mapsto>
            File (generateSelfHealingImplementation exampleSpec)))"
    by (simp add: createFeature_def Let_def example_not_duplicate t example_valid_component
      createFailingTest_def createMinimalImplementation_def addSelfHealingMechanisms_def
      example_paths example_dirnames ensureDirectoryExists_def existsSync_def mkdirSync_def
      writeFileSync_def e)
  from c e show ?thesis by (simp add: existsSync_def example_paths)
qed

section \<open>C4: an unknown kind gets the generic skeleton\<close>






end
